theory Spec2Isabelle
  imports Main "HOL-Library.AList"
begin

section \<open>Python primitives used by the warehouse code\<close>

text \<open>
  Exceptions are values. \<open>ValueError\<close> carries the message the source formats;
  \<open>ExternalError\<close> is any exception raised inside a collaborator (the \<open>easy_s3\<close>
  handler or the Athena client), which the warehouse code never catches.
\<close>

datatype py_error =
    ValueError string
  | AssertionError
  | IndexError
  | KeyError
  | TypeError
  | AttributeError
  | ExternalError string

text \<open>
  The values a caller may hand to \<open>raw_save\<close>/\<open>discovery_save\<close>. Dictionaries are
  association lists in insertion order with string keys; \<open>POther\<close> stands for any other
  object that is neither a list nor a mapping (a float, for instance).
\<close>

datatype pyvalue =
    PNone
  | PBool bool
  | PInt int
  | PStr string
  | PBytes string
  | POther string
  | PList "pyvalue list"
  | PDict "(string \<times> pyvalue) list"

text \<open>\<open>s.find(sub)\<close>: the lowest index at which \<open>sub\<close> occurs in \<open>s\<close>, or \<open>-1\<close>.\<close>

fun find_at :: "string \<Rightarrow> string \<Rightarrow> nat \<Rightarrow> int" where
  "find_at sub [] i = (if sub = [] then int i else - 1)"
| "find_at sub (c # cs) i =
     (if take (length sub) (c # cs) = sub then int i else find_at sub cs (Suc i))"

definition py_find :: "string \<Rightarrow> string \<Rightarrow> int" where
  "py_find s sub = find_at sub s 0"

text \<open>\<open>s.rfind(c)\<close> for a one-character \<open>c\<close>: the highest index of \<open>c\<close>, or \<open>-1\<close>.\<close>

fun rfind_from :: "char \<Rightarrow> string \<Rightarrow> int \<Rightarrow> int \<Rightarrow> int" where
  "rfind_from c [] i found = found"
| "rfind_from c (x # xs) i found = rfind_from c xs (i + 1) (if x = c then i else found)"

definition py_rfind :: "string \<Rightarrow> char \<Rightarrow> int" where
  "py_rfind s c = rfind_from c s 0 (- 1)"

definition startswith :: "string \<Rightarrow> string \<Rightarrow> bool" where
  "startswith s p = (take (length p) s = p)"

text \<open>\<open>s.split(sep)\<close> for a one-character separator: never empty, \<open>"".split("/") = [""]\<close>.\<close>

fun py_split :: "char \<Rightarrow> string \<Rightarrow> string list" where
  "py_split sep [] = [[]]"
| "py_split sep (x # xs) =
     (if x = sep then [] # py_split sep xs
      else (case py_split sep xs of
              [] \<Rightarrow> [[x]]
            | w # ws \<Rightarrow> (x # w) # ws))"

text \<open>\<open>sep.join(parts)\<close>.\<close>

fun py_join :: "string \<Rightarrow> string list \<Rightarrow> string" where
  "py_join sep [] = []"
| "py_join sep [x] = x"
| "py_join sep (x # y # ys) = x @ sep @ py_join sep (y # ys)"

text \<open>\<open>xs[i]\<close> for a non-negative index: \<open>IndexError\<close> out of range.\<close>

definition py_index :: "'a list \<Rightarrow> nat \<Rightarrow> py_error + 'a" where
  "py_index xs i = (if i < length xs then Inr (xs ! i) else Inl IndexError)"

text \<open>\<open>str(n)\<close> for an integer.\<close>

definition digit_char :: "nat \<Rightarrow> char" where
  "digit_char d = ''0123456789'' ! (d mod 10)"

function str_nat :: "nat \<Rightarrow> string" where
  "str_nat n = (if n < 10 then [digit_char n] else str_nat (n div 10) @ [digit_char (n mod 10)])"
  by pat_completeness auto
termination
  by (relation "measure (\<lambda>n. n)") auto

declare str_nat.simps [simp del]

definition str_int :: "int \<Rightarrow> string" where
  "str_int i = (if i < 0 then ''-'' @ str_nat (nat (- i)) else str_nat (nat i))"

text \<open>
  \<open>os.path.splitext\<close> (posixpath): the extension starts at the last dot of the last
  path component, unless that component consists of leading dots only up to there.
  \<open>skip_leading_dots\<close> is the library's \<open>while filenameIndex < dotIndex\<close> loop: True when
  it finds a character other than a dot (the split is returned), False when it runs out.
\<close>

function skip_leading_dots :: "string \<Rightarrow> nat \<Rightarrow> nat \<Rightarrow> bool" where
  "skip_leading_dots p filenameIndex dotIndex =
     (if filenameIndex < dotIndex then
        (if take 1 (drop filenameIndex p) \<noteq> ''.'' then True
         else skip_leading_dots p (filenameIndex + 1) dotIndex)
      else False)"
  by pat_completeness auto
termination
  by (relation "measure (\<lambda>(p, i, j). j - i)") auto

declare skip_leading_dots.simps [simp del]

definition splitext :: "string \<Rightarrow> string \<times> string" where
  "splitext p =
     (let sepIndex = py_rfind p CHR ''/'';
          dotIndex = py_rfind p CHR ''.''
      in if dotIndex > sepIndex
            \<and> skip_leading_dots p (nat (sepIndex + 1)) (nat dotIndex)
         then (take (nat dotIndex) p, drop (nat dotIndex) p)
         else (p, []))"

text \<open>\<open>os.path.basename\<close>.\<close>

definition basename :: "string \<Rightarrow> string" where
  "basename p = drop (nat (py_rfind p CHR ''/'' + 1)) p"

section \<open>The warehouse object and its environment\<close>

text \<open>The fields of a \<open>DataWarehouse\<close> instance that the modelled methods read.\<close>

record data_warehouse =
  warehouse_name :: string
  bucket_name :: string
  table_name :: string

text \<open>
  What the methods read from outside the program: the wall clock at each of the three
  places the source asks for it, \<open>time.time_ns()\<close>, the successive values of
  \<open>int(random.random() * random_box_length)\<close> (each below 62, since \<open>random.random()\<close>
  lies in [0, 1)), and the text \<open>csv.writer\<close> produces for a list of rows.
\<close>

record environment =
  save_today :: string
  meta_stored_time :: string
  meta_today :: string
  time_ns :: int
  random_draw :: "nat \<Rightarrow> nat"
  csv_writerows :: "pyvalue list list \<Rightarrow> string"

definition get_table_name :: "data_warehouse \<Rightarrow> string \<Rightarrow> string" where
  "get_table_name self tname = (if tname \<noteq> [] then tname else table_name self)"

section \<open>Key construction\<close>

text \<open>
  \<open>_get_warehouse_full_path\<close>. The source has two \<open>if\<close> statements with a \<open>return\<close>
  each and nothing after them: for any other store kind the function falls off its
  end and returns Python's \<open>None\<close>, which is \<open>None\<close> here.
\<close>

definition get_warehouse_full_path ::
  "data_warehouse \<Rightarrow> string \<Rightarrow> string \<Rightarrow> string \<Rightarrow> string \<Rightarrow> string \<Rightarrow> bool \<Rightarrow> string option" where
  "get_warehouse_full_path self store_kind tname user_path table_kind ymd is_meta =
     (let tname' = get_table_name self tname;
          ymd_with_slash = (if ymd \<noteq> [] then ''/'' @ ymd else []);
          meta_or_value = (if is_meta then ''meta'' else ''value'');
          ext = snd (splitext user_path);
          add_ext = (if ext \<noteq> ''.parquet'' then ''.gz'' else []);
          remaining_path = table_kind @ ''/'' @ meta_or_value @ ''/'' @ tname'
                             @ ymd_with_slash @ ''/'' @ user_path @ add_ext
      in if store_kind = ''raw'' then Some (''raw/'' @ remaining_path)
         else if store_kind = ''discovery'' then Some (''discovery/'' @ remaining_path)
         else None)"

section \<open>User paths\<close>

text \<open>\<open>_get_random_string\<close>: \<open>length\<close> characters, the k-th one picked by the k-th draw.\<close>

definition random_box :: string where
  "random_box = ''abcdefghijklmnopqrstuvwxyzABCDEFGHIJKLMNOPQRSTUVWXYZ1234567890''"

fun random_loop :: "(nat \<Rightarrow> nat) \<Rightarrow> nat \<Rightarrow> nat \<Rightarrow> string \<Rightarrow> string" where
  "random_loop draw k 0 result = result"
| "random_loop draw k (Suc n) result = random_loop draw (Suc k) n (result @ [random_box ! draw k])"

definition get_random_string :: "environment \<Rightarrow> nat \<Rightarrow> string" where
  "get_random_string env len = random_loop (random_draw env) 0 len []"

definition get_valid_user_path :: "environment \<Rightarrow> string \<Rightarrow> py_error + string" where
  "get_valid_user_path env user_path =
     (if length user_path = 0 then Inl (ValueError (''invalid user_path '' @ user_path))
      else if hd user_path = CHR ''.'' then
        (if length user_path = 1 then Inl (ValueError (''invalid user_path '' @ user_path))
         else Inr (str_int (time_ns env) @ ''_'' @ get_random_string env 5 @ user_path))
      else Inr user_path)"

section \<open>Parsing a key\<close>

text \<open>The \<open>SimpleNamespace\<close> that \<open>_parse_full_path\<close> returns.\<close>

record parsed_path =
  p_full_path :: string
  p_ext :: string
  p_store_kind :: string
  p_meta_or_value :: string
  p_table_name :: string
  p_gz :: bool
  p_ymd :: string

definition valid_full_path :: "data_warehouse \<Rightarrow> string \<Rightarrow> py_error + unit" where
  "valid_full_path self full_path =
     (if \<not> startswith full_path (''default/'' @ warehouse_name self @ ''/'')
      then Inl (ValueError (''invalid full_path '' @ full_path))
      else Inr ())"

text \<open>
  \<open>_parse_full_path\<close>. \<open>full_path[-3:]\<close> is the last three characters (the whole string
  when it is shorter) and \<open>full_path[:-3]\<close> drops them. The two \<open>assert\<close>s and the four
  positional reads follow in the source's order; the source reads \<open>store_kind\<close> from
  index 3.
\<close>

definition parse_full_path :: "data_warehouse \<Rightarrow> string \<Rightarrow> py_error + parsed_path" where
  "parse_full_path self full_path0 =
     (let is_gz = (drop (length full_path0 - 3) full_path0 = ''.gz'');
          full_path = (if is_gz then take (length full_path0 - 3) full_path0 else full_path0)
      in case valid_full_path self full_path of
           Inl e \<Rightarrow> Inl e
         | Inr _ \<Rightarrow>
           (let ext = snd (splitext (basename full_path));
                splited = py_split CHR ''/'' full_path
            in case py_index splited 0 of Inl e \<Rightarrow> Inl e | Inr s0 \<Rightarrow>
               if s0 \<noteq> ''default'' then Inl AssertionError else
               case py_index splited 1 of Inl e \<Rightarrow> Inl e | Inr s1 \<Rightarrow>
               if s1 \<noteq> warehouse_name self then Inl AssertionError else
               case py_index splited 3 of Inl e \<Rightarrow> Inl e | Inr store_kind \<Rightarrow>
               case py_index splited 4 of Inl e \<Rightarrow> Inl e | Inr meta_or_value \<Rightarrow>
               case py_index splited 5 of Inl e \<Rightarrow> Inl e | Inr tname \<Rightarrow>
               case py_index splited 6 of Inl e \<Rightarrow> Inl e | Inr ymd \<Rightarrow>
               Inr \<lparr> p_full_path = full_path, p_ext = ext, p_store_kind = store_kind,
                     p_meta_or_value = meta_or_value, p_table_name = tname,
                     p_gz = is_gz, p_ymd = ymd \<rparr>))"

section \<open>The storage collaborator\<close>

text \<open>
  The \<open>easy_s3\<close> handler is not part of the repository; it is a parameter. A write request
  is what \<open>save(path, value, option)\<close> receives (the path is \<open>None\<close> when the caller
  passes Python's \<open>None\<close>). The trace of requests is the order in which the program
  issued them; \<open>es_save\<close> decides from the requests so far and the new one whether the
  write raises or which confirmation it returns. Storage changes through issued
  writes only. The reading calls are functions of their arguments: storage does not
  change while one listing or load runs.
\<close>

record write_req =
  w_path :: "string option"
  w_value :: pyvalue
  w_option :: "(string \<times> string) list"

record s3_object =
  Key :: string
  attributes :: "(string \<times> string) list"

record easy_s3 =
  es_save :: "write_req list \<Rightarrow> write_req \<Rightarrow> string + string"
  es_load_file :: "string \<Rightarrow> string + pyvalue"
  es_list_objects :: "string \<Rightarrow> string \<Rightarrow> string + s3_object list"
  es_listdir :: "string \<Rightarrow> string + string list"

text \<open>
  A call into the handler returns its result or raises; \<open>Inl\<close> carries the text of an
  exception raised inside the handler, which reaches the caller as \<open>ExternalError\<close>.
\<close>

definition external :: "string + 'a \<Rightarrow> py_error + 'a" where
  "external r = (case r of Inl msg \<Rightarrow> Inl (ExternalError msg) | Inr x \<Rightarrow> Inr x)"

text \<open>One call of \<open>self._es_handler.save\<close>: the request is issued, then it succeeds or raises.\<close>

definition handler_save ::
  "easy_s3 \<Rightarrow> write_req list \<Rightarrow> string option \<Rightarrow> pyvalue \<Rightarrow> (string \<times> string) list
     \<Rightarrow> (py_error + string) \<times> write_req list" where
  "handler_save es trace path v opt =
     (let req = \<lparr> w_path = path, w_value = v, w_option = opt \<rparr>
      in (external (es_save es trace req), trace @ [req]))"

section \<open>Loading by full path\<close>

text \<open>
  The loaders return the outcome together with the keys fetched so far, in order.
  \<open>splited[4] = "meta"\<close> raises \<open>IndexError\<close> when the key has fewer than five segments.
\<close>

definition load_with_full_path ::
  "easy_s3 \<Rightarrow> string list \<Rightarrow> string \<Rightarrow> (py_error + pyvalue) \<times> string list" where
  "load_with_full_path es fetched full_path =
     (external (es_load_file es full_path), fetched @ [full_path])"

definition get_meta_path_with_full_path :: "string \<Rightarrow> py_error + string" where
  "get_meta_path_with_full_path full_path =
     (let splited = py_split CHR ''/'' full_path
      in if 4 < length splited then Inr (py_join ''/'' (splited[4 := ''meta'']))
         else Inl IndexError)"

definition load_meta_with_full_path ::
  "easy_s3 \<Rightarrow> string list \<Rightarrow> string \<Rightarrow> (py_error + pyvalue) \<times> string list" where
  "load_meta_with_full_path es fetched full_path =
     (case get_meta_path_with_full_path full_path of
        Inl e \<Rightarrow> (Inl e, fetched)
      | Inr meta_path \<Rightarrow> (external (es_load_file es meta_path), fetched @ [meta_path]))"

section \<open>Listing\<close>

datatype list_result =
    Objects "s3_object list"
  | Loaded "(string \<times> pyvalue) list"
  | Directories "string list"

text \<open>The two nested \<open>for\<close> loops over the objects and the \<open>includes\<close> strings.\<close>

definition filter_includes :: "string list \<Rightarrow> s3_object list \<Rightarrow> s3_object list" where
  "filter_includes includes objects =
     fold (\<lambda>obj temp.
             fold (\<lambda>include_str temp'.
                     if py_find (Key obj) include_str \<noteq> - 1 then temp' @ [obj] else temp')
                  includes temp)
          objects []"

text \<open>The loop of the \<open>load == True\<close> branch.\<close>

fun load_loop ::
  "easy_s3 \<Rightarrow> bool \<Rightarrow> s3_object list \<Rightarrow> (string \<times> pyvalue) list \<Rightarrow> string list
     \<Rightarrow> (py_error + (string \<times> pyvalue) list) \<times> string list" where
  "load_loop es is_meta [] result fetched = (Inr result, fetched)"
| "load_loop es is_meta (obj # objs) result fetched =
     (let key = Key obj
      in case (if is_meta then load_meta_with_full_path es fetched key
               else load_with_full_path es fetched key) of
           (Inl e, fetched') \<Rightarrow> (Inl e, fetched')
         | (Inr v, fetched') \<Rightarrow> load_loop es is_meta objs (result @ [(key, v)]) fetched')"

text \<open>
  \<open>_list_worker\<close>. The source filters the first listing into \<open>objects\<close> and then, when
  \<open>is_direoctry\<close> is false, assigns a fresh listing to \<open>objects\<close>.
\<close>

definition list_worker ::
  "easy_s3 \<Rightarrow> data_warehouse \<Rightarrow> string list \<Rightarrow> string \<Rightarrow> string \<Rightarrow> string \<Rightarrow> string \<Rightarrow> string
     \<Rightarrow> bool \<Rightarrow> bool \<Rightarrow> string list \<Rightarrow> bool \<Rightarrow> (py_error + list_result) \<times> string list" where
  "list_worker es self fetched store_kind table_kind tname user_dir ymd load is_meta includes
       is_direoctry =
     (let tname' = get_table_name self tname;
          user_dir_with_slash = (if user_dir \<noteq> [] then ''/'' @ user_dir else []);
          ymd_with_slash = (if ymd \<noteq> [] then ''/'' @ ymd else []);
          full_path = store_kind @ ''/'' @ table_kind @ ''/value/'' @ tname'
                        @ user_dir_with_slash @ ymd_with_slash
      in case external (es_list_objects es full_path (warehouse_name self)) of
           Inl e \<Rightarrow> (Inl e, fetched)
         | Inr listed \<Rightarrow>
           (let objects = (if length includes > 0 then filter_includes includes listed
                           else listed)
            in if \<not> is_direoctry then
                 (case external (es_list_objects es full_path (warehouse_name self)) of
                    Inl e \<Rightarrow> (Inl e, fetched)
                  | Inr objects' \<Rightarrow>
                      if load then
                        (case load_loop es is_meta objects' [] fetched of
                           (Inl e, fetched') \<Rightarrow> (Inl e, fetched')
                         | (Inr result, fetched') \<Rightarrow> (Inr (Loaded result), fetched'))
                      else (Inr (Objects objects'), fetched))
               else
                 (case external (es_listdir es full_path) of
                    Inl e \<Rightarrow> (Inl e, fetched)
                  | Inr names \<Rightarrow> (Inr (Directories names), fetched))))"

definition raw_list ::
  "easy_s3 \<Rightarrow> data_warehouse \<Rightarrow> string list \<Rightarrow> string \<Rightarrow> string \<Rightarrow> string \<Rightarrow> string
     \<Rightarrow> bool \<Rightarrow> bool \<Rightarrow> string list \<Rightarrow> bool \<Rightarrow> (py_error + list_result) \<times> string list" where
  "raw_list es self fetched tname user_dir ymd table_kind load is_meta includes is_direoctry =
     list_worker es self fetched ''raw'' table_kind tname user_dir ymd load is_meta includes
       is_direoctry"

definition discovery_list ::
  "easy_s3 \<Rightarrow> data_warehouse \<Rightarrow> string list \<Rightarrow> string \<Rightarrow> string \<Rightarrow> string \<Rightarrow> string
     \<Rightarrow> bool \<Rightarrow> bool \<Rightarrow> string list \<Rightarrow> bool \<Rightarrow> (py_error + list_result) \<times> string list" where
  "discovery_list es self fetched tname user_dir ymd table_kind load is_meta includes
       is_direoctry =
     list_worker es self fetched ''discovery'' table_kind tname user_dir ymd load is_meta
       includes is_direoctry"

section \<open>CSV transcoding\<close>

text \<open>\<open>.keys()\<close> and \<open>.values()\<close>: only a mapping has them.\<close>

fun py_keys :: "pyvalue \<Rightarrow> py_error + string list" where
  "py_keys (PDict m) = Inr (map fst m)"
| "py_keys _ = Inl AttributeError"

fun py_values :: "pyvalue \<Rightarrow> py_error + pyvalue list" where
  "py_values (PDict m) = Inr (map snd m)"
| "py_values _ = Inl AttributeError"

fun csv_rows_loop :: "pyvalue list \<Rightarrow> pyvalue list list \<Rightarrow> py_error + pyvalue list list" where
  "csv_rows_loop [] csv_rows = Inr csv_rows"
| "csv_rows_loop (row # rest) csv_rows =
     (case py_values row of
        Inl e \<Rightarrow> Inl e
      | Inr vs \<Rightarrow> csv_rows_loop rest (csv_rows @ [vs]))"

fun is_list :: "pyvalue \<Rightarrow> bool" where
  "is_list (PList _) = True"
| "is_list _ = False"

definition json_to_csv :: "environment \<Rightarrow> pyvalue \<Rightarrow> py_error + string" where
  "json_to_csv env json_data =
     (case json_data of
        PList rows \<Rightarrow>
          (case rows of
             [] \<Rightarrow> Inr []
           | first # _ \<Rightarrow>
               (case py_keys first of
                  Inl e \<Rightarrow> Inl e
                | Inr ks \<Rightarrow>
                    (case csv_rows_loop rows [map PStr ks] of
                       Inl e \<Rightarrow> Inl e
                     | Inr csv_rows \<Rightarrow> Inr (csv_writerows env csv_rows))))
      | _ \<Rightarrow> Inl (ValueError ''json data's type must be list.''))"

section \<open>The metadata record\<close>

text \<open>
  \<open>_upgrade_meta\<close>. The caller's mapping is copied, three fields are set on the copy, and
  every field of the copy is stored under its name prefixed with the store kind. A
  \<open>None\<close> path is formatted as the text \<open>None\<close>, as an f-string does.
\<close>

definition upgrade_meta ::
  "environment \<Rightarrow> data_warehouse \<Rightarrow> string \<Rightarrow> (string \<times> pyvalue) list \<Rightarrow> string option \<Rightarrow> string
     \<Rightarrow> py_error + (string \<times> pyvalue) list" where
  "upgrade_meta env self store_kind meta warehouse_full_path tname =
     (let tname' = get_table_name self tname;
          new_meta = [(''default_table_name'', PStr tname')];
          full_path = ''default/'' @ warehouse_name self @ ''/''
                        @ (case warehouse_full_path of None \<Rightarrow> ''None'' | Some p \<Rightarrow> p);
          temp_meta = AList.update ''ymd'' (PStr (meta_today env))
                        (AList.update ''stored_time'' (PStr (meta_stored_time env))
                           (AList.update ''full_path'' (PStr full_path) meta))
      in if store_kind = ''raw'' \<or> store_kind = ''discovery'' then
           Inr (fold (\<lambda>(key, v) acc. AList.update (store_kind @ ''_'' @ key) v acc)
                     temp_meta new_meta)
         else Inl (ValueError (''invalid store_kind '' @ store_kind)))"

section \<open>Saving\<close>

text \<open>
  \<open>_save_worker\<close>, threading the trace of issued writes. An exception ends the call with
  the trace as it stands.
\<close>

definition save_worker ::
  "easy_s3 \<Rightarrow> environment \<Rightarrow> data_warehouse \<Rightarrow> write_req list \<Rightarrow> string \<Rightarrow> string \<Rightarrow> string
     \<Rightarrow> pyvalue \<Rightarrow> (string \<times> pyvalue) list \<Rightarrow> bool \<Rightarrow> string \<Rightarrow> string
     \<Rightarrow> (py_error + string) \<times> write_req list" where
  "save_worker es env self trace store_kind table_kind user_path v meta use_ymd tname user_ymd =
     (let tname' = get_table_name self tname;
          ymd = (if user_ymd \<noteq> [] then user_ymd
                 else if use_ymd then save_today env else [])
      in case get_valid_user_path env user_path of
           Inl e \<Rightarrow> (Inl e, trace)
         | Inr user_path' \<Rightarrow>
           (let ext = snd (splitext user_path')
            in case (if ext = ''.csv'' \<and> is_list v
                     then (case json_to_csv env v of Inl e \<Rightarrow> Inl e | Inr text \<Rightarrow> Inr (PStr text))
                     else Inr v) of
                 Inl e \<Rightarrow> (Inl e, trace)
               | Inr v' \<Rightarrow>
                 (let warehouse_full_path =
                        get_warehouse_full_path self store_kind tname' user_path' table_kind ymd False;
                      meta_warehouse_full_path =
                        get_warehouse_full_path self store_kind tname' user_path' table_kind ymd True
                  in case upgrade_meta env self store_kind meta warehouse_full_path tname' of
                       Inl e \<Rightarrow> (Inl e, trace)
                     | Inr meta' \<Rightarrow>
                       (let opt = (if ext \<noteq> ''.parquet'' then [(''compress_type'', ''gz'')] else [])
                        in if store_kind = ''raw'' then
                             (case handler_save es trace meta_warehouse_full_path (PDict meta') opt of
                                (Inl e, trace1) \<Rightarrow> (Inl e, trace1)
                              | (Inr _, trace1) \<Rightarrow>
                                  handler_save es trace1 warehouse_full_path v' opt)
                           else if store_kind = ''discovery'' then
                             (case handler_save es trace warehouse_full_path v' opt of
                                (Inl e, trace1) \<Rightarrow> (Inl e, trace1)
                              | (Inr result, trace1) \<Rightarrow>
                                  (case handler_save es trace1 meta_warehouse_full_path
                                          (PDict meta') opt of
                                     (Inl e, trace2) \<Rightarrow> (Inl e, trace2)
                                   | (Inr _, trace2) \<Rightarrow> (Inr result, trace2)))
                           else (Inl (ValueError (''invalid store kind '' @ store_kind)), trace)))))"

definition raw_save ::
  "easy_s3 \<Rightarrow> environment \<Rightarrow> data_warehouse \<Rightarrow> write_req list \<Rightarrow> string \<Rightarrow> pyvalue
     \<Rightarrow> (string \<times> pyvalue) list \<Rightarrow> bool \<Rightarrow> string \<Rightarrow> string \<Rightarrow> string
     \<Rightarrow> (py_error + string) \<times> write_req list" where
  "raw_save es env self trace user_path v meta use_ymd tname table_kind ymd =
     save_worker es env self trace ''raw'' table_kind user_path v meta use_ymd tname ymd"

definition discovery_save ::
  "easy_s3 \<Rightarrow> environment \<Rightarrow> data_warehouse \<Rightarrow> write_req list \<Rightarrow> string \<Rightarrow> pyvalue
     \<Rightarrow> (string \<times> pyvalue) list \<Rightarrow> bool \<Rightarrow> string \<Rightarrow> string \<Rightarrow> string
     \<Rightarrow> (py_error + string) \<times> write_req list" where
  "discovery_save es env self trace user_path v meta use_ymd tname table_kind ymd =
     save_worker es env self trace ''discovery'' table_kind user_path v meta use_ymd tname ymd"

section \<open>Athena queries\<close>

text \<open>
  The Athena client is a parameter. A cell of a result row is a dictionary that has a
  \<open>VarCharValue\<close> or lacks it; a row is its \<open>Data\<close> list; a page has \<open>Rows\<close> and
  possibly a \<open>NextToken\<close>. \<open>get_query_execution client query_id n\<close> is the state the
  service reports at the n-th call for that query. Exceptions raised inside the
  client are not modelled.
\<close>

type_synonym cell = "string option"
type_synonym row = "cell list"

record result_page =
  Rows :: "row list"
  NextToken :: "string option"

record athena_client =
  start_query_execution :: "string \<Rightarrow> string \<Rightarrow> string"
  get_query_execution :: "string \<Rightarrow> nat \<Rightarrow> string"
  get_query_results :: "string \<Rightarrow> string option \<Rightarrow> result_page"

datatype query_item =
    RawPage result_page
  | Record "(string \<times> string) list"

definition get_format_type :: "string \<Rightarrow> string" where
  "get_format_type query =
     (if py_find query ''SELECT'' \<noteq> - 1 \<or> py_find query ''select'' \<noteq> - 1 then ''select''
      else ''raw'')"

text \<open>\<open>[obj['VarCharValue'] for obj in d['Data']]\<close>: \<open>KeyError\<close> at the first cell without one.\<close>

fun get_var_char_values :: "row \<Rightarrow> py_error + string list" where
  "get_var_char_values [] = Inr []"
| "get_var_char_values (c # cs) =
     (case c of
        None \<Rightarrow> Inl KeyError
      | Some v \<Rightarrow>
          (case get_var_char_values cs of
             Inl e \<Rightarrow> Inl e
           | Inr vs \<Rightarrow> Inr (v # vs)))"

text \<open>\<open>dict(pairs)\<close>: a later pair with the same key replaces the value in place.\<close>

definition py_dict :: "(string \<times> string) list \<Rightarrow> (string \<times> string) list" where
  "py_dict pairs = fold (\<lambda>(k, v) d. AList.update k v d) pairs []"

fun parse_rows :: "string list \<Rightarrow> row list \<Rightarrow> py_error + (string \<times> string) list list" where
  "parse_rows header [] = Inr []"
| "parse_rows header (r # rs) =
     (case get_var_char_values r of
        Inl e \<Rightarrow> Inl e
      | Inr vs \<Rightarrow>
          (case parse_rows header rs of
             Inl e \<Rightarrow> Inl e
           | Inr ds \<Rightarrow> Inr (py_dict (zip header vs) # ds)))"

definition parse :: "row \<Rightarrow> row list \<Rightarrow> py_error + (string \<times> string) list list" where
  "parse header rows =
     (case get_var_char_values header of
        Inl e \<Rightarrow> Inl e
      | Inr h \<Rightarrow> parse_rows h rows)"

text \<open>
  The \<open>while True\<close> loop that polls the state. It has no bound, so not returning is the
  value \<open>None\<close>. \<open>time.sleep(1)\<close> has no effect on the result.
\<close>

partial_function (option) poll_status ::
  "(nat \<Rightarrow> string) \<Rightarrow> string \<Rightarrow> nat \<Rightarrow> (py_error + unit) option" where
  "poll_status reply query n =
     (if reply n = ''CANCELLED'' then Some (Inl (ValueError (''['' @ query @ ''] is cancelled.'')))
      else if reply n = ''FAILED'' then Some (Inl (ValueError (''['' @ query @ ''] is failed.'')))
      else if reply n = ''SUCCEEDED'' then Some (Inr ())
      else poll_status reply query (Suc n))"

declare poll_status.simps [code]

text \<open>
  The \<open>for index in range(request_limit)\<close> loop: \<open>remaining\<close> counts the iterations left.
  \<open>header\<close> starts as the empty list, on which \<open>d['Data']\<close> would raise \<open>TypeError\<close>
  (\<open>None\<close> here); the first iteration replaces it by the first row of the first page,
  and unpacking \<open>header, *rows\<close> from an empty page raises \<open>ValueError\<close>.
\<close>

fun results_loop ::
  "athena_client \<Rightarrow> string \<Rightarrow> string \<Rightarrow> nat \<Rightarrow> nat \<Rightarrow> string list \<Rightarrow> row option
     \<Rightarrow> query_item list \<Rightarrow> py_error + query_item list" where
  "results_loop client query_id format_type 0 index next_tokens header result = Inr result"
| "results_loop client query_id format_type (Suc remaining) index next_tokens header result =
     (let request_token = (if length next_tokens > 0 then Some (last next_tokens) else None);
          query_raw_result = get_query_results client query_id request_token
      in if format_type = ''raw'' then Inr (result @ [RawPage query_raw_result])
         else if format_type = ''select'' then
           (case (if index = 0 then
                    (case Rows query_raw_result of
                       [] \<Rightarrow> Inl (ValueError ''not enough values to unpack (expected at least 1, got 0)'')
                     | h # rs \<Rightarrow> Inr (Some h, rs))
                  else Inr (header, Rows query_raw_result)) of
              Inl e \<Rightarrow> Inl e
            | Inr (header', rows) \<Rightarrow>
                (case (case header' of None \<Rightarrow> Inl TypeError | Some h \<Rightarrow> parse h rows) of
                   Inl e \<Rightarrow> Inl e
                 | Inr parsed \<Rightarrow>
                     (let result' = result @ map Record parsed
                      in case NextToken query_raw_result of
                           Some new_next_token \<Rightarrow>
                             if new_next_token \<notin> set next_tokens then
                               results_loop client query_id format_type remaining (index + 1)
                                 (next_tokens @ [new_next_token]) header' result'
                             else Inr result'
                         | None \<Rightarrow> Inr result')))
         else results_loop client query_id format_type remaining (index + 1) next_tokens
                header result)"

definition load_with_athena_query ::
  "athena_client \<Rightarrow> data_warehouse \<Rightarrow> string \<Rightarrow> string \<Rightarrow> int
     \<Rightarrow> (py_error + query_item list) option" where
  "load_with_athena_query client self query format_type request_limit =
     (let format_type' = (if format_type = ''auto'' then get_format_type query else format_type);
          query_id = start_query_execution client query
                       (''s3://'' @ bucket_name self @ ''/trash/athena_result'')
      in case poll_status (get_query_execution client query_id) query 0 of
           None \<Rightarrow> None
         | Some (Inl e) \<Rightarrow> Some (Inl e)
         | Some (Inr _) \<Rightarrow>
             Some (results_loop client query_id format_type' (nat request_limit) 0 [] None []))"

section \<open>Concrete instances\<close>

text \<open>
  A warehouse with the default name, a clock and random source, a storage handler that
  accepts every write and lists three objects under one table, used to run the
  definitions on concrete inputs.
\<close>

definition wh0 :: data_warehouse where
  "wh0 = \<lparr> warehouse_name = ''warehouse'', bucket_name = ''bucket'', table_name = ''events'' \<rparr>"

definition env0 :: environment where
  "env0 = \<lparr> save_today = ''2020-08-30'',
            meta_stored_time = ''2020-08-30 12:00:00.000001'',
            meta_today = ''2020-08-30'',
            time_ns = 1598745600000000000,
            random_draw = (\<lambda>k. k),
            csv_writerows = (\<lambda>rows. ''csv'') \<rparr>"

definition listing0 :: "s3_object list" where
  "listing0 =
     [\<lparr> Key = ''default/warehouse/raw/general/value/events/a/1.gz'', attributes = [] \<rparr>,
      \<lparr> Key = ''default/warehouse/raw/general/value/events/a/2.gz'', attributes = [] \<rparr>,
      \<lparr> Key = ''default/warehouse/raw/general/value/events/b/1.gz'', attributes = [] \<rparr>]"

definition es0 :: easy_s3 where
  "es0 = \<lparr> es_save = (\<lambda>trace req. Inr ''stored''),
           es_load_file = (\<lambda>key. Inr (PStr key)),
           es_list_objects =
             (\<lambda>prefix wname. if prefix = ''raw/general/value/events'' then Inr listing0 else Inr []),
           es_listdir = (\<lambda>prefix. Inr []) \<rparr>"

definition meta0 :: "(string \<times> pyvalue) list" where
  "meta0 = [(''source'', PStr ''test'')]"

text \<open>The writes that \<open>raw_save("a.json", "x", meta0)\<close> issues on the instances above.\<close>

definition raw_trace0 :: "write_req list" where
  "raw_trace0 =
     [\<lparr> w_path = Some ''raw/general/meta/events/2020-08-30/a.json.gz'',
        w_value = PDict
          [(''default_table_name'', PStr ''events''),
           (''raw_source'', PStr ''test''),
           (''raw_full_path'',
              PStr ''default/warehouse/raw/general/value/events/2020-08-30/a.json.gz''),
           (''raw_stored_time'', PStr ''2020-08-30 12:00:00.000001''),
           (''raw_ymd'', PStr ''2020-08-30'')],
        w_option = [(''compress_type'', ''gz'')] \<rparr>,
      \<lparr> w_path = Some ''raw/general/value/events/2020-08-30/a.json.gz'',
        w_value = PStr ''x'',
        w_option = [(''compress_type'', ''gz'')] \<rparr>]"

text \<open>The writes that \<open>discovery_save("rows.csv", [{"a": 1}], meta0)\<close> issues.\<close>

definition discovery_trace0 :: "write_req list" where
  "discovery_trace0 =
     [\<lparr> w_path = Some ''discovery/general/value/events/2020-08-30/rows.csv.gz'',
        w_value = PStr ''csv'',
        w_option = [(''compress_type'', ''gz'')] \<rparr>,
      \<lparr> w_path = Some ''discovery/general/meta/events/2020-08-30/rows.csv.gz'',
        w_value = PDict
          [(''default_table_name'', PStr ''events''),
           (''discovery_source'', PStr ''test''),
           (''discovery_full_path'',
              PStr ''default/warehouse/discovery/general/value/events/2020-08-30/rows.csv.gz''),
           (''discovery_stored_time'', PStr ''2020-08-30 12:00:00.000001''),
           (''discovery_ymd'', PStr ''2020-08-30'')],
        w_option = [(''compress_type'', ''gz'')] \<rparr>]"

text \<open>
  A mock query service: the query runs during the first two polls and then succeeds; its
  three result pages carry the continuation tokens \<open>t1\<close>, \<open>t2\<close> and \<open>t1\<close> again.
  A second mock reports the query queued once and then failed.
\<close>

definition athena0 :: athena_client where
  "athena0 =
     \<lparr> start_query_execution = (\<lambda>query output_location. ''query-1''),
       get_query_execution = (\<lambda>query_id n. if n < 2 then ''RUNNING'' else ''SUCCEEDED''),
       get_query_results =
         (\<lambda>query_id token.
            if token = None then
              \<lparr> Rows = [[Some ''id''], [Some ''1'']], NextToken = Some ''t1'' \<rparr>
            else if token = Some ''t1'' then
              \<lparr> Rows = [[Some ''2'']], NextToken = Some ''t2'' \<rparr>
            else
              \<lparr> Rows = [[Some ''3'']], NextToken = Some ''t1'' \<rparr>) \<rparr>"

definition athena_failed :: athena_client where
  "athena_failed =
     \<lparr> start_query_execution = (\<lambda>query output_location. ''query-2''),
       get_query_execution = (\<lambda>query_id n. if n < 1 then ''QUEUED'' else ''FAILED''),
       get_query_results = (\<lambda>query_id token. \<lparr> Rows = [], NextToken = None \<rparr>) \<rparr>"

section \<open>Key construction and user paths: properties\<close>







text \<open>
  C6. Key construction is claimed to fail with an error for a store kind other than
  \<open>raw\<close> and \<open>discovery\<close>. \<open>_get_warehouse_full_path\<close> raises nothing: for the store kind
  \<open>archive\<close> it returns \<open>None\<close> to its caller.
\<close>

theorem get_warehouse_full_path_unknown_store_kind:
  "get_warehouse_full_path wh0 ''archive'' ''t'' ''a.json'' ''general'' ''2020-08-30'' False = None"
  by (simp add: get_warehouse_full_path_def Let_def)

text \<open>
  C2. A listing with \<open>includes\<close> is claimed to return the entries whose key contains one
  of the given substrings. With three objects under the table and
  \<open>includes = ["events/a/"]\<close>, the filter keeps the first two, and \<open>raw_list\<close> (with
  \<open>load\<close> and \<open>is_direoctry\<close> false) returns all three.
\<close>

theorem raw_list_includes_example:
  "filter_includes [''events/a/''] listing0 = take 2 listing0
   \<and> raw_list es0 wh0 [] [] [] [] ''general'' False False [''events/a/''] False
       = (Inr (Objects listing0), [])"
  by code_simp

section \<open>Saving: properties\<close>

lemma get_warehouse_full_path_Some:
  "sk = ''raw'' \<or> sk = ''discovery'' \<Longrightarrow>
   get_warehouse_full_path self sk tn up tk ymd is_meta
     = Some (sk @ ''/'' @ tk @ ''/'' @ (if is_meta then ''meta'' else ''value'') @ ''/''
             @ get_table_name self tn @ (if ymd \<noteq> [] then ''/'' @ ymd else []) @ ''/'' @ up
             @ (if snd (splitext up) \<noteq> ''.parquet'' then ''.gz'' else []))"
  by (auto simp: get_warehouse_full_path_def Let_def)

lemma upgrade_meta_Inr:
  "upgrade_meta env self sk meta wpath tn = Inr meta' \<Longrightarrow> sk = ''raw'' \<or> sk = ''discovery''"
  by (auto simp: upgrade_meta_def Let_def split: if_splits)

lemma save_worker_success:
  assumes "save_worker es env self trace sk tk up v meta use_ymd tn uymd = (Inr r, trace')"
  shows "\<exists>up' v' meta' vk mk opt.
     get_valid_user_path env up = Inr up'
   \<and> (sk = ''raw'' \<or> sk = ''discovery'')
   \<and> (if snd (splitext up') = ''.csv'' \<and> is_list v
       then (\<exists>text. json_to_csv env v = Inr text \<and> v' = PStr text) else v' = v)
   \<and> get_warehouse_full_path self sk (get_table_name self tn) up' tk
        (if uymd \<noteq> [] then uymd else if use_ymd then save_today env else []) False = Some vk
   \<and> get_warehouse_full_path self sk (get_table_name self tn) up' tk
        (if uymd \<noteq> [] then uymd else if use_ymd then save_today env else []) True = Some mk
   \<and> upgrade_meta env self sk meta (Some vk) (get_table_name self tn) = Inr meta'
   \<and> opt = (if snd (splitext up') \<noteq> ''.parquet'' then [(''compress_type'', ''gz'')] else [])
   \<and> trace' = trace @
        (if sk = ''raw''
         then [\<lparr> w_path = Some mk, w_value = PDict meta', w_option = opt \<rparr>,
               \<lparr> w_path = Some vk, w_value = v', w_option = opt \<rparr>]
         else [\<lparr> w_path = Some vk, w_value = v', w_option = opt \<rparr>,
               \<lparr> w_path = Some mk, w_value = PDict meta', w_option = opt \<rparr>])"
proof -
  obtain up' where up': "get_valid_user_path env up = Inr up'"
    using assms by (cases "get_valid_user_path env up") (auto simp: save_worker_def Let_def)
  let ?ext = "snd (splitext up')"
  let ?tr = "if ?ext = ''.csv'' \<and> is_list v
             then (case json_to_csv env v of Inl e \<Rightarrow> Inl e | Inr text \<Rightarrow> Inr (PStr text))
             else Inr v"
  obtain v' where v': "?tr = Inr v'"
    using assms up' by (cases ?tr) (auto simp: save_worker_def Let_def)
  let ?ymd = "if uymd \<noteq> [] then uymd else if use_ymd then save_today env else []"
  let ?wfp = "get_warehouse_full_path self sk (get_table_name self tn) up' tk ?ymd False"
  let ?mwfp = "get_warehouse_full_path self sk (get_table_name self tn) up' tk ?ymd True"
  obtain meta' where meta': "upgrade_meta env self sk meta ?wfp (get_table_name self tn) = Inr meta'"
    using assms up' v'
    by (cases "upgrade_meta env self sk meta ?wfp (get_table_name self tn)")
       (auto simp: save_worker_def Let_def)
  have sk: "sk = ''raw'' \<or> sk = ''discovery''"
    using meta' by (rule upgrade_meta_Inr)
  obtain vk mk where vk: "?wfp = Some vk" and mk: "?mwfp = Some mk"
    using sk by (simp add: get_warehouse_full_path_Some)
  let ?opt = "if ?ext \<noteq> ''.parquet'' then [(''compress_type'', ''gz'')] else []"
  have tr: "trace' = trace @
        (if sk = ''raw''
         then [\<lparr> w_path = Some mk, w_value = PDict meta', w_option = ?opt \<rparr>,
               \<lparr> w_path = Some vk, w_value = v', w_option = ?opt \<rparr>]
         else [\<lparr> w_path = Some vk, w_value = v', w_option = ?opt \<rparr>,
               \<lparr> w_path = Some mk, w_value = PDict meta', w_option = ?opt \<rparr>])"
    using assms up' v' meta' sk vk mk
    by (auto simp: save_worker_def Let_def handler_save_def split: sum.splits prod.splits if_splits)
  have csv: "if ?ext = ''.csv'' \<and> is_list v
       then (\<exists>text. json_to_csv env v = Inr text \<and> v' = PStr text) else v' = v"
    using v' by (auto split: sum.splits if_splits)
  show ?thesis
    using up' sk csv vk mk meta' tr by (intro exI conjI) (simp_all only: refl)
qed


lemma map_of_fold_prefix_update:
  "distinct (map fst xs) \<Longrightarrow>
   map_of (fold (\<lambda>(key, v) acc. AList.update (p @ key) v acc) xs acc0) (p @ k)
     = (case map_of xs k of Some v \<Rightarrow> Some v | None \<Rightarrow> map_of acc0 (p @ k))"
proof (induction xs arbitrary: acc0)
  case Nil
  then show ?case by simp
next
  case (Cons x xs)
  obtain a b where x: "x = (a, b)" by (cases x)
  from Cons.prems x have d: "distinct (map fst xs)" and a: "a \<notin> fst ` set xs" by auto
  from a have none: "map_of xs a = None" by (simp add: map_of_eq_None_iff)
  show ?case
    using Cons.IH [OF d, of "AList.update (p @ a) b acc0"] none
    by (auto simp: x update_conv' split: option.splits)
qed

lemma upgrade_meta_full_path:
  assumes "distinct (map fst meta)"
      and "upgrade_meta env self sk meta (Some vk) tn = Inr meta'"
  shows "map_of meta' (sk @ ''_full_path'')
           = Some (PStr (''default/'' @ warehouse_name self @ ''/'' @ vk))"
proof -
  let ?full = "PStr (''default/'' @ warehouse_name self @ ''/'' @ vk)"
  let ?temp = "AList.update ''ymd'' (PStr (meta_today env))
                 (AList.update ''stored_time'' (PStr (meta_stored_time env))
                    (AList.update ''full_path'' ?full meta))"
  have d: "distinct (map fst ?temp)"
    using assms(1) by (simp add: distinct_update)
  have m: "map_of ?temp ''full_path'' = Some ?full"
    by (simp add: update_conv')
  have eq: "meta' = fold (\<lambda>(key, v) acc. AList.update ((sk @ ''_'') @ key) v acc) ?temp
                      [(''default_table_name'', PStr (get_table_name self tn))]"
    using assms(2) by (simp add: upgrade_meta_def Let_def split: if_splits)
  have "map_of meta' ((sk @ ''_'') @ ''full_path'') = Some ?full"
    unfolding eq using map_of_fold_prefix_update [OF d, of "sk @ ''_''" _ "''full_path''"] m
    by simp
  then show ?thesis by simp
qed

lemma save_worker_writes:
  assumes "save_worker es env self trace sk tk up v meta use_ymd tn uymd = (Inr r, trace')"
  shows "\<exists>up' v' meta' opt ymd rest.
     get_valid_user_path env up = Inr up'
   \<and> ymd = (if uymd \<noteq> [] then uymd else if use_ymd then save_today env else [])
   \<and> rest = get_table_name self tn
              @ (if ymd \<noteq> [] then ''/'' @ ymd else [])
              @ ''/'' @ up' @ (if snd (splitext up') \<noteq> ''.parquet'' then ''.gz'' else [])
   \<and> (sk = ''raw'' \<or> sk = ''discovery'')
   \<and> (if snd (splitext up') = ''.csv'' \<and> is_list v
       then (\<exists>text. json_to_csv env v = Inr text \<and> v' = PStr text) else v' = v)
   \<and> upgrade_meta env self sk meta (Some (sk @ ''/'' @ tk @ ''/value/'' @ rest))
        (get_table_name self tn) = Inr meta'
   \<and> opt = (if snd (splitext up') \<noteq> ''.parquet'' then [(''compress_type'', ''gz'')] else [])
   \<and> trace' = trace @
        (if sk = ''raw''
         then [\<lparr> w_path = Some (sk @ ''/'' @ tk @ ''/meta/'' @ rest), w_value = PDict meta',
                  w_option = opt \<rparr>,
               \<lparr> w_path = Some (sk @ ''/'' @ tk @ ''/value/'' @ rest), w_value = v',
                  w_option = opt \<rparr>]
         else [\<lparr> w_path = Some (sk @ ''/'' @ tk @ ''/value/'' @ rest), w_value = v',
                  w_option = opt \<rparr>,
               \<lparr> w_path = Some (sk @ ''/'' @ tk @ ''/meta/'' @ rest), w_value = PDict meta',
                  w_option = opt \<rparr>])"
proof -
  let ?ymd = "if uymd \<noteq> [] then uymd else if use_ymd then save_today env else []"
  from save_worker_success [OF assms]
  obtain up' v' meta' vk mk opt where
        up': "get_valid_user_path env up = Inr up'"
    and sk: "sk = ''raw'' \<or> sk = ''discovery''"
    and csv: "if snd (splitext up') = ''.csv'' \<and> is_list v
              then (\<exists>text. json_to_csv env v = Inr text \<and> v' = PStr text) else v' = v"
    and vk: "get_warehouse_full_path self sk (get_table_name self tn) up' tk ?ymd False = Some vk"
    and mk: "get_warehouse_full_path self sk (get_table_name self tn) up' tk ?ymd True = Some mk"
    and meta': "upgrade_meta env self sk meta (Some vk) (get_table_name self tn) = Inr meta'"
    and opt: "opt = (if snd (splitext up') \<noteq> ''.parquet'' then [(''compress_type'', ''gz'')] else [])"
    and tr: "trace' = trace @
        (if sk = ''raw''
         then [\<lparr> w_path = Some mk, w_value = PDict meta', w_option = opt \<rparr>,
               \<lparr> w_path = Some vk, w_value = v', w_option = opt \<rparr>]
         else [\<lparr> w_path = Some vk, w_value = v', w_option = opt \<rparr>,
               \<lparr> w_path = Some mk, w_value = PDict meta', w_option = opt \<rparr>])"
    by blast
  define ymd where "ymd = ?ymd"
  define rest where "rest = get_table_name self tn
              @ (if ymd \<noteq> [] then ''/'' @ ymd else [])
              @ ''/'' @ up' @ (if snd (splitext up') \<noteq> ''.parquet'' then ''.gz'' else [])"
  have idem: "get_table_name self (get_table_name self tn) = get_table_name self tn"
    by (simp add: get_table_name_def)
  have vk': "vk = sk @ ''/'' @ tk @ ''/value/'' @ rest"
    using vk get_warehouse_full_path_Some [OF sk, of self "get_table_name self tn" up' tk ?ymd False]
    by (auto simp: rest_def ymd_def idem)
  have mk': "mk = sk @ ''/'' @ tk @ ''/meta/'' @ rest"
    using mk get_warehouse_full_path_Some [OF sk, of self "get_table_name self tn" up' tk ?ymd True]
    by (auto simp: rest_def ymd_def idem)
  show ?thesis
    using up' ymd_def rest_def sk csv meta' [unfolded vk'] opt tr [unfolded vk' mk']
    by (intro exI conjI) (simp_all only: refl)
qed

lemma save_worker_issued:
  assumes run: "save_worker es env self trace sk tk up v meta use_ymd tn uymd = (res, trace')"
      and issued: "trace' \<noteq> trace"
  shows "\<exists>up' v' meta' opt ymd rest.
     get_valid_user_path env up = Inr up'
   \<and> ymd = (if uymd \<noteq> [] then uymd else if use_ymd then save_today env else [])
   \<and> rest = get_table_name self tn
              @ (if ymd \<noteq> [] then ''/'' @ ymd else [])
              @ ''/'' @ up' @ (if snd (splitext up') \<noteq> ''.parquet'' then ''.gz'' else [])
   \<and> (sk = ''raw'' \<or> sk = ''discovery'')
   \<and> (if snd (splitext up') = ''.csv'' \<and> is_list v
       then (\<exists>text. json_to_csv env v = Inr text \<and> v' = PStr text) else v' = v)
   \<and> upgrade_meta env self sk meta (Some (sk @ ''/'' @ tk @ ''/value/'' @ rest))
        (get_table_name self tn) = Inr meta'
   \<and> opt = (if snd (splitext up') \<noteq> ''.parquet'' then [(''compress_type'', ''gz'')] else [])
   \<and> (\<exists>n \<in> {1, 2}. trace' = trace @ take n
        (if sk = ''raw''
         then [\<lparr> w_path = Some (sk @ ''/'' @ tk @ ''/meta/'' @ rest), w_value = PDict meta',
                  w_option = opt \<rparr>,
               \<lparr> w_path = Some (sk @ ''/'' @ tk @ ''/value/'' @ rest), w_value = v',
                  w_option = opt \<rparr>]
         else [\<lparr> w_path = Some (sk @ ''/'' @ tk @ ''/value/'' @ rest), w_value = v',
                  w_option = opt \<rparr>,
               \<lparr> w_path = Some (sk @ ''/'' @ tk @ ''/meta/'' @ rest), w_value = PDict meta',
                  w_option = opt \<rparr>]))"
proof -
  obtain up' where up': "get_valid_user_path env up = Inr up'"
    using run issued by (cases "get_valid_user_path env up") (auto simp: save_worker_def Let_def)
  let ?ext = "snd (splitext up')"
  let ?tr = "if ?ext = ''.csv'' \<and> is_list v
             then (case json_to_csv env v of Inl e \<Rightarrow> Inl e | Inr text \<Rightarrow> Inr (PStr text))
             else Inr v"
  obtain v' where v': "?tr = Inr v'"
    using run issued up' by (cases ?tr) (auto simp: save_worker_def Let_def)
  define ymd where "ymd = (if uymd \<noteq> [] then uymd else if use_ymd then save_today env else [])"
  define rest where "rest = get_table_name self tn
              @ (if ymd \<noteq> [] then ''/'' @ ymd else [])
              @ ''/'' @ up' @ (if snd (splitext up') \<noteq> ''.parquet'' then ''.gz'' else [])"
  let ?wfp = "get_warehouse_full_path self sk (get_table_name self tn) up' tk ymd False"
  let ?mwfp = "get_warehouse_full_path self sk (get_table_name self tn) up' tk ymd True"
  obtain meta' where meta': "upgrade_meta env self sk meta ?wfp (get_table_name self tn) = Inr meta'"
    using run issued up' v'
    by (cases "upgrade_meta env self sk meta ?wfp (get_table_name self tn)")
       (auto simp: save_worker_def Let_def ymd_def)
  have sk: "sk = ''raw'' \<or> sk = ''discovery''"
    using meta' by (rule upgrade_meta_Inr)
  have idem: "get_table_name self (get_table_name self tn) = get_table_name self tn"
    by (simp add: get_table_name_def)
  have vk: "?wfp = Some (sk @ ''/'' @ tk @ ''/value/'' @ rest)"
    using get_warehouse_full_path_Some [OF sk, of self "get_table_name self tn" up' tk ymd False]
    by (auto simp: rest_def idem)
  have mk: "?mwfp = Some (sk @ ''/'' @ tk @ ''/meta/'' @ rest)"
    using get_warehouse_full_path_Some [OF sk, of self "get_table_name self tn" up' tk ymd True]
    by (auto simp: rest_def idem)
  define opt where "opt = (if ?ext \<noteq> ''.parquet'' then [(''compress_type'', ''gz'')] else [])"
  define mreq where "mreq = \<lparr> w_path = Some (sk @ ''/'' @ tk @ ''/meta/'' @ rest),
                               w_value = PDict meta', w_option = opt \<rparr>"
  define vreq where "vreq = \<lparr> w_path = Some (sk @ ''/'' @ tk @ ''/value/'' @ rest),
                               w_value = v', w_option = opt \<rparr>"
  have tr: "trace' = trace @ take 1 (if sk = ''raw'' then [mreq, vreq] else [vreq, mreq])
          \<or> trace' = trace @ take 2 (if sk = ''raw'' then [mreq, vreq] else [vreq, mreq])"
    using run up' v' meta' sk vk mk
    by (auto simp: save_worker_def Let_def handler_save_def ymd_def [symmetric]
                   opt_def [symmetric] mreq_def vreq_def
             split: sum.splits prod.splits if_splits)
  have csv: "if ?ext = ''.csv'' \<and> is_list v
       then (\<exists>text. json_to_csv env v = Inr text \<and> v' = PStr text) else v' = v"
    using v' by (auto split: sum.splits if_splits)
  have tr': "\<exists>n \<in> {1, 2}. trace' = trace @ take n (if sk = ''raw'' then [mreq, vreq] else [vreq, mreq])"
    using tr by blast
  show ?thesis
    using up' ymd_def rest_def sk csv meta' [unfolded vk] opt_def tr' [unfolded mreq_def vreq_def]
    by (intro exI conjI) (simp_all only: refl)
qed

lemma raw_save_example:
  "save_worker es0 env0 wh0 [] ''raw'' ''general'' ''a.json'' (PStr ''x'') meta0 True [] []
     = (Inr ''stored'', raw_trace0)"
  by code_simp

lemma discovery_save_example:
  "save_worker es0 env0 wh0 [] ''discovery'' ''general'' ''rows.csv''
       (PList [PDict [(''a'', PInt 1)]]) meta0 True [] []
     = (Inr ''stored'', discovery_trace0)"
  by code_simp

text \<open>
  C3. Every successful save issues exactly two writes with one and the same option: for
  store kind \<open>raw\<close> the write to the \<open>meta\<close> key (carrying the metadata record) comes
  first and the write to the \<open>value\<close> key second; for \<open>discovery\<close> the write to the
  \<open>value\<close> key comes first and the write to the \<open>meta\<close> key second.
\<close>

theorem save_worker_write_order:
  assumes "save_worker es env self trace sk tk up v meta use_ymd tn uymd = (Inr r, trace')"
  shows "\<exists>rest v' meta' opt.
           sk = ''raw'' \<and>
             trace' = trace @
               [\<lparr> w_path = Some (''raw/'' @ tk @ ''/meta/'' @ rest), w_value = PDict meta',
                   w_option = opt \<rparr>,
                \<lparr> w_path = Some (''raw/'' @ tk @ ''/value/'' @ rest), w_value = v',
                   w_option = opt \<rparr>]
         \<or> sk = ''discovery'' \<and>
             trace' = trace @
               [\<lparr> w_path = Some (''discovery/'' @ tk @ ''/value/'' @ rest), w_value = v',
                   w_option = opt \<rparr>,
                \<lparr> w_path = Some (''discovery/'' @ tk @ ''/meta/'' @ rest),
                   w_value = PDict meta', w_option = opt \<rparr>]"
proof -
  from save_worker_writes [OF assms]
  obtain v' meta' opt rest where
        sk: "sk = ''raw'' \<or> sk = ''discovery''"
    and tr: "trace' = trace @
        (if sk = ''raw''
         then [\<lparr> w_path = Some (sk @ ''/'' @ tk @ ''/meta/'' @ rest), w_value = PDict meta',
                  w_option = opt \<rparr>,
               \<lparr> w_path = Some (sk @ ''/'' @ tk @ ''/value/'' @ rest), w_value = v',
                  w_option = opt \<rparr>]
         else [\<lparr> w_path = Some (sk @ ''/'' @ tk @ ''/value/'' @ rest), w_value = v',
                  w_option = opt \<rparr>,
               \<lparr> w_path = Some (sk @ ''/'' @ tk @ ''/meta/'' @ rest), w_value = PDict meta',
                  w_option = opt \<rparr>])"
    by blast
  from sk show ?thesis
  proof
    assume "sk = ''raw''"
    with tr show ?thesis by (intro exI [of _ rest] exI [of _ v'] exI [of _ meta'] exI [of _ opt]) simp
  next
    assume "sk = ''discovery''"
    with tr show ?thesis by (intro exI [of _ rest] exI [of _ v'] exI [of _ meta'] exI [of _ opt]) simp
  qed
qed

theorem save_worker_write_order_witness:
  "\<exists>rest v' meta' opt.
           ''raw'' = ''raw'' \<and>
             raw_trace0 = [] @
               [\<lparr> w_path = Some (''raw/'' @ ''general'' @ ''/meta/'' @ rest), w_value = PDict meta',
                   w_option = opt \<rparr>,
                \<lparr> w_path = Some (''raw/'' @ ''general'' @ ''/value/'' @ rest), w_value = v',
                   w_option = opt \<rparr>]
         \<or> ''raw'' = ''discovery'' \<and>
             raw_trace0 = [] @
               [\<lparr> w_path = Some (''discovery/'' @ ''general'' @ ''/value/'' @ rest), w_value = v',
                   w_option = opt \<rparr>,
                \<lparr> w_path = Some (''discovery/'' @ ''general'' @ ''/meta/'' @ rest),
                   w_value = PDict meta', w_option = opt \<rparr>]"
  by (rule save_worker_write_order [OF raw_save_example])

text \<open>
  C7. For every save with a metadata mapping (distinct keys), whatever its outcome, each
  write it issues goes to the value key or to the key that is equal to it except for the
  channel segment (\<open>meta\<close> in place of \<open>value\<close>), and a write to that meta key carries
  a record that has under \<open>{store_kind}_full_path\<close> the text \<open>default/{warehouse_name}/\<close>
  followed by the value key, compression suffix included. A successful save has written
  to both keys.
\<close>

theorem save_worker_meta_points_to_value:
  assumes "distinct (map fst meta)"
      and "save_worker es env self trace sk tk up v meta use_ymd tn uymd = (res, trace')"
  shows "\<exists>rest.
           (\<forall>w \<in> set (drop (length trace) trace').
               w_path w = Some (sk @ ''/'' @ tk @ ''/value/'' @ rest)
             \<or> w_path w = Some (sk @ ''/'' @ tk @ ''/meta/'' @ rest)
               \<and> (\<exists>m. w_value w = PDict m
                      \<and> map_of m (sk @ ''_full_path'')
                          = Some (PStr (''default/'' @ warehouse_name self @ ''/''
                                          @ sk @ ''/'' @ tk @ ''/value/'' @ rest))))
         \<and> ((\<exists>r. res = Inr r) \<longrightarrow>
              w_path ` set (drop (length trace) trace')
                = {Some (sk @ ''/'' @ tk @ ''/value/'' @ rest),
                   Some (sk @ ''/'' @ tk @ ''/meta/'' @ rest)})"
proof (cases res)
  case (Inr r)
  from save_worker_writes [OF assms(2) [unfolded Inr]]
  obtain v' meta' opt rest where
        meta': "upgrade_meta env self sk meta (Some (sk @ ''/'' @ tk @ ''/value/'' @ rest))
                  (get_table_name self tn) = Inr meta'"
    and tr: "trace' = trace @
        (if sk = ''raw''
         then [\<lparr> w_path = Some (sk @ ''/'' @ tk @ ''/meta/'' @ rest), w_value = PDict meta',
                  w_option = opt \<rparr>,
               \<lparr> w_path = Some (sk @ ''/'' @ tk @ ''/value/'' @ rest), w_value = v',
                  w_option = opt \<rparr>]
         else [\<lparr> w_path = Some (sk @ ''/'' @ tk @ ''/value/'' @ rest), w_value = v',
                  w_option = opt \<rparr>,
               \<lparr> w_path = Some (sk @ ''/'' @ tk @ ''/meta/'' @ rest), w_value = PDict meta',
                  w_option = opt \<rparr>])"
    by blast
  have fp: "map_of meta' (sk @ ''_full_path'')
             = Some (PStr (''default/'' @ warehouse_name self @ ''/''
                             @ sk @ ''/'' @ tk @ ''/value/'' @ rest))"
    using upgrade_meta_full_path [OF assms(1) meta'] by simp
  show ?thesis
    by (rule exI [of _ rest]) (use tr fp in \<open>auto split: if_splits\<close>)
next
  case (Inl e)
  show ?thesis
  proof (cases "trace' = trace")
    case True
    with Inl show ?thesis by simp
  next
    case False
    from save_worker_issued [OF assms(2) False]
    obtain v' meta' opt rest where
          meta': "upgrade_meta env self sk meta (Some (sk @ ''/'' @ tk @ ''/value/'' @ rest))
                    (get_table_name self tn) = Inr meta'"
      and tr: "\<exists>n \<in> {1, 2}. trace' = trace @ take n
          (if sk = ''raw''
           then [\<lparr> w_path = Some (sk @ ''/'' @ tk @ ''/meta/'' @ rest), w_value = PDict meta',
                    w_option = opt \<rparr>,
                 \<lparr> w_path = Some (sk @ ''/'' @ tk @ ''/value/'' @ rest), w_value = v',
                    w_option = opt \<rparr>]
           else [\<lparr> w_path = Some (sk @ ''/'' @ tk @ ''/value/'' @ rest), w_value = v',
                    w_option = opt \<rparr>,
                 \<lparr> w_path = Some (sk @ ''/'' @ tk @ ''/meta/'' @ rest), w_value = PDict meta',
                    w_option = opt \<rparr>])"
      by blast
    have fp: "map_of meta' (sk @ ''_full_path'')
               = Some (PStr (''default/'' @ warehouse_name self @ ''/''
                               @ sk @ ''/'' @ tk @ ''/value/'' @ rest))"
      using upgrade_meta_full_path [OF assms(1) meta'] by simp
    show ?thesis
      by (rule exI [of _ rest]) (use tr fp Inl in \<open>auto split: if_splits\<close>)
  qed
qed

theorem save_worker_meta_points_to_value_witness:
  "distinct (map fst meta0)
   \<and> (\<exists>rest.
           (\<forall>w \<in> set (drop (length ([] :: write_req list)) raw_trace0).
               w_path w = Some (''raw'' @ ''/'' @ ''general'' @ ''/value/'' @ rest)
             \<or> w_path w = Some (''raw'' @ ''/'' @ ''general'' @ ''/meta/'' @ rest)
               \<and> (\<exists>m. w_value w = PDict m
                      \<and> map_of m (''raw'' @ ''_full_path'')
                          = Some (PStr (''default/'' @ warehouse_name wh0 @ ''/''
                                          @ ''raw'' @ ''/'' @ ''general'' @ ''/value/'' @ rest))))
         \<and> ((\<exists>r. (Inr ''stored'' :: py_error + string) = Inr r) \<longrightarrow>
              w_path ` set (drop (length ([] :: write_req list)) raw_trace0)
                = {Some (''raw'' @ ''/'' @ ''general'' @ ''/value/'' @ rest),
                   Some (''raw'' @ ''/'' @ ''general'' @ ''/meta/'' @ rest)}))
   \<and> (\<exists>r. (Inr ''stored'' :: py_error + string) = Inr r)
   \<and> set (drop (length ([] :: write_req list)) raw_trace0) \<noteq> {}"
proof -
  have d: "distinct (map fst meta0)" by (simp add: meta0_def)
  have r: "\<exists>r. (Inr ''stored'' :: py_error + string) = Inr r" by simp
  have n: "set (drop (length ([] :: write_req list)) raw_trace0) \<noteq> {}" by (simp add: raw_trace0_def)
  show ?thesis
    by (intro conjI)
       (rule d, rule save_worker_meta_points_to_value [OF d raw_save_example], rule r, rule n)
qed

lemma py_keys_non_mapping: "\<forall>m. first \<noteq> PDict m \<Longrightarrow> py_keys first = Inl AttributeError"
  by (cases first) simp_all

lemma csv_rows_loop_error: "csv_rows_loop rows acc = Inl e \<Longrightarrow> e = AttributeError"
proof (induction rows arbitrary: acc)
  case Nil
  then show ?case by simp
next
  case (Cons row rows)
  then show ?case by (cases row) (auto split: sum.splits)
qed

lemma json_to_csv_list_error: "is_list v \<Longrightarrow> json_to_csv env v = Inl e \<Longrightarrow> e = AttributeError"
proof (cases v)
  case (PList rows)
  assume "json_to_csv env v = Inl e"
  then show ?thesis
  proof (cases rows)
    case Nil
    with PList \<open>json_to_csv env v = Inl e\<close> show ?thesis by (simp add: json_to_csv_def)
  next
    case (Cons first others)
    with PList \<open>json_to_csv env v = Inl e\<close> show ?thesis
      by (cases first)
         (auto simp: json_to_csv_def split: sum.splits dest: csv_rows_loop_error)
  qed
qed simp_all

lemma save_worker_error:
  assumes "save_worker es env self trace sk tk up v meta use_ymd tn uymd = (Inl e, trace')"
  shows "e = ValueError (''invalid user_path '' @ up)
       \<or> e = AttributeError
       \<or> e = ValueError (''invalid store_kind '' @ sk)
       \<or> e = ValueError (''invalid store kind '' @ sk)
       \<or> (\<exists>msg. e = ExternalError msg)"
proof (cases "get_valid_user_path env up")
  case (Inl e1)
  then have "e1 = ValueError (''invalid user_path '' @ up)"
    by (auto simp: get_valid_user_path_def split: if_splits)
  with assms Inl show ?thesis by (simp add: save_worker_def Let_def)
next
  case (Inr up')
  let ?ext = "snd (splitext up')"
  let ?tr = "if ?ext = ''.csv'' \<and> is_list v
             then (case json_to_csv env v of Inl e \<Rightarrow> Inl e | Inr text \<Rightarrow> Inr (PStr text))
             else Inr v"
  show ?thesis
  proof (cases ?tr)
    case (Inl e2)
    then have "e2 = AttributeError"
      by (auto split: if_splits sum.splits dest: json_to_csv_list_error)
    with assms Inr Inl show ?thesis by (simp add: save_worker_def Let_def)
  next
    case v': (Inr v')
    let ?ymd = "if uymd \<noteq> [] then uymd else if use_ymd then save_today env else []"
    let ?wfp = "get_warehouse_full_path self sk (get_table_name self tn) up' tk ?ymd False"
    show ?thesis
    proof (cases "upgrade_meta env self sk meta ?wfp (get_table_name self tn)")
      case (Inl e3)
      then have "e3 = ValueError (''invalid store_kind '' @ sk)"
        by (auto simp: upgrade_meta_def Let_def split: if_splits)
      with assms Inr v' Inl show ?thesis by (simp add: save_worker_def Let_def)
    next
      case m: (Inr meta')
      show ?thesis
        using assms Inr v' m
        by (auto simp: save_worker_def Let_def handler_save_def external_def
                 split: sum.splits prod.splits if_splits)
    qed
  qed
qed

lemma not_list_error_distinct:
  "ValueError (''invalid user_path '' @ up) \<noteq> ValueError ''json data's type must be list.''"
  "ValueError (''invalid store_kind '' @ sk) \<noteq> ValueError ''json data's type must be list.''"
  "ValueError (''invalid store kind '' @ sk) \<noteq> ValueError ''json data's type must be list.''"
  by simp_all

lemma rows_csv_path: "get_valid_user_path env0 ''rows.csv'' = Inr ''rows.csv''"
  by (simp add: get_valid_user_path_def)

lemma rows_csv_ext: "snd (splitext ''rows.csv'') = ''.csv''"
  by code_simp

text \<open>
  C10. In a save, the CSV transcoding runs exactly when the extension of the normalized
  path is \<open>.csv\<close> and the value is a list, whatever its elements are. With such a path,
  a non-empty list whose first element is not a mapping makes the save end with
  \<open>AttributeError\<close> and the trace of writes unchanged. No save ends with the
  transcoder's \<open>json data's type must be list.\<close> error. On a successful save the value
  written to the value key is the CSV text when the condition holds, and the caller's
  value otherwise.
\<close>

theorem save_worker_csv_transcode:
  "(get_valid_user_path env up = Inr up' \<and> snd (splitext up') = ''.csv''
      \<and> (\<forall>m. first \<noteq> PDict m)
      \<longrightarrow> save_worker es env self trace sk tk up (PList (first # others)) meta use_ymd tn uymd
            = (Inl AttributeError, trace))
   \<and> fst (save_worker es env self trace sk tk up v meta use_ymd tn uymd)
       \<noteq> Inl (ValueError ''json data's type must be list.'')
   \<and> (save_worker es env self trace sk tk up v meta use_ymd tn uymd = (Inr r, trace')
        \<and> get_valid_user_path env up = Inr up'
      \<longrightarrow> (\<exists>w \<in> set (drop (length trace) trace').
              (\<exists>rest. w_path w = Some (sk @ ''/'' @ tk @ ''/value/'' @ rest))
            \<and> (if snd (splitext up') = ''.csv'' \<and> is_list v
               then (\<exists>text. json_to_csv env v = Inr text \<and> w_value w = PStr text)
               else w_value w = v)))"
proof (intro conjI impI)
  assume h: "get_valid_user_path env up = Inr up' \<and> snd (splitext up') = ''.csv''
               \<and> (\<forall>m. first \<noteq> PDict m)"
  then have "json_to_csv env (PList (first # others)) = Inl AttributeError"
    by (simp add: json_to_csv_def py_keys_non_mapping)
  with h show "save_worker es env self trace sk tk up (PList (first # others)) meta use_ymd tn uymd
                 = (Inl AttributeError, trace)"
    by (simp add: save_worker_def Let_def)
next
  show "fst (save_worker es env self trace sk tk up v meta use_ymd tn uymd)
          \<noteq> Inl (ValueError ''json data's type must be list.'')"
  proof
    assume a: "fst (save_worker es env self trace sk tk up v meta use_ymd tn uymd)
                 = Inl (ValueError ''json data's type must be list.'')"
    then obtain t where "save_worker es env self trace sk tk up v meta use_ymd tn uymd
                 = (Inl (ValueError ''json data's type must be list.''), t)"
      by (metis prod.collapse)
    from save_worker_error [OF this] show False
      using not_list_error_distinct by auto
  qed
next
  assume h: "save_worker es env self trace sk tk up v meta use_ymd tn uymd = (Inr r, trace')
               \<and> get_valid_user_path env up = Inr up'"
  from save_worker_writes [of es env self trace sk tk up v meta use_ymd tn uymd r trace'] h
  obtain up1 v' meta' opt rest where
        up1: "get_valid_user_path env up = Inr up1"
    and csv: "if snd (splitext up1) = ''.csv'' \<and> is_list v
              then (\<exists>text. json_to_csv env v = Inr text \<and> v' = PStr text) else v' = v"
    and tr: "trace' = trace @
        (if sk = ''raw''
         then [\<lparr> w_path = Some (sk @ ''/'' @ tk @ ''/meta/'' @ rest), w_value = PDict meta',
                  w_option = opt \<rparr>,
               \<lparr> w_path = Some (sk @ ''/'' @ tk @ ''/value/'' @ rest), w_value = v',
                  w_option = opt \<rparr>]
         else [\<lparr> w_path = Some (sk @ ''/'' @ tk @ ''/value/'' @ rest), w_value = v',
                  w_option = opt \<rparr>,
               \<lparr> w_path = Some (sk @ ''/'' @ tk @ ''/meta/'' @ rest), w_value = PDict meta',
                  w_option = opt \<rparr>])"
    by blast
  from up1 h have eq: "up1 = up'" by simp
  let ?w = "\<lparr> w_path = Some (sk @ ''/'' @ tk @ ''/value/'' @ rest), w_value = v',
               w_option = opt \<rparr>"
  have mem: "?w \<in> set (drop (length trace) trace')"
    using tr by simp
  have p: "\<exists>rest'. w_path ?w = Some (sk @ ''/'' @ tk @ ''/value/'' @ rest')"
    by simp
  have c: "if snd (splitext up') = ''.csv'' \<and> is_list v
           then (\<exists>text. json_to_csv env v = Inr text \<and> w_value ?w = PStr text)
           else w_value ?w = v"
    using csv eq by simp
  from mem p c
  show "\<exists>w \<in> set (drop (length trace) trace').
              (\<exists>rest. w_path w = Some (sk @ ''/'' @ tk @ ''/value/'' @ rest))
            \<and> (if snd (splitext up') = ''.csv'' \<and> is_list v
               then (\<exists>text. json_to_csv env v = Inr text \<and> w_value w = PStr text)
               else w_value w = v)"
    by blast
qed

theorem save_worker_csv_transcode_witness:
  "(get_valid_user_path env0 ''rows.csv'' = Inr ''rows.csv'' \<and> snd (splitext ''rows.csv'') = ''.csv''
      \<and> (\<forall>m. PInt 1 \<noteq> PDict m))
   \<and> save_worker es0 env0 wh0 [] ''discovery'' ''general'' ''rows.csv'' (PList [PInt 1]) meta0
        True [] [] = (Inl AttributeError, [])
   \<and> (save_worker es0 env0 wh0 [] ''discovery'' ''general'' ''rows.csv''
         (PList [PDict [(''a'', PInt 1)]]) meta0 True [] [] = (Inr ''stored'', discovery_trace0)
        \<and> get_valid_user_path env0 ''rows.csv'' = Inr ''rows.csv'')
   \<and> (\<exists>w \<in> set (drop (length ([] :: write_req list)) discovery_trace0).
              (\<exists>rest. w_path w = Some (''discovery'' @ ''/'' @ ''general'' @ ''/value/'' @ rest))
            \<and> (if snd (splitext ''rows.csv'') = ''.csv'' \<and> is_list (PList [PDict [(''a'', PInt 1)]])
               then (\<exists>text. json_to_csv env0 (PList [PDict [(''a'', PInt 1)]]) = Inr text
                        \<and> w_value w = PStr text)
               else w_value w = PList [PDict [(''a'', PInt 1)]]))"
proof -
  have h1: "get_valid_user_path env0 ''rows.csv'' = Inr ''rows.csv'' \<and> snd (splitext ''rows.csv'') = ''.csv''
      \<and> (\<forall>m. PInt 1 \<noteq> PDict m)"
    using rows_csv_path rows_csv_ext by simp
  have h3: "save_worker es0 env0 wh0 [] ''discovery'' ''general'' ''rows.csv''
         (PList [PDict [(''a'', PInt 1)]]) meta0 True [] [] = (Inr ''stored'', discovery_trace0)
        \<and> get_valid_user_path env0 ''rows.csv'' = Inr ''rows.csv''"
    using discovery_save_example rows_csv_path by simp
  note t = save_worker_csv_transcode
             [of env0 "''rows.csv''" "''rows.csv''" "PInt 1" es0 wh0 "[]" "''discovery''"
                 "''general''" "[]" meta0 True "[]" "[]" "PList [PDict [(''a'', PInt 1)]]"
                 "''stored''" discovery_trace0]
  from t h1 have c1: "save_worker es0 env0 wh0 [] ''discovery'' ''general'' ''rows.csv''
        (PList [PInt 1]) meta0 True [] [] = (Inl AttributeError, [])"
    by blast
  from t h3 have c3: "\<exists>w \<in> set (drop (length ([] :: write_req list)) discovery_trace0).
              (\<exists>rest. w_path w = Some (''discovery'' @ ''/'' @ ''general'' @ ''/value/'' @ rest))
            \<and> (if snd (splitext ''rows.csv'') = ''.csv'' \<and> is_list (PList [PDict [(''a'', PInt 1)]])
               then (\<exists>text. json_to_csv env0 (PList [PDict [(''a'', PInt 1)]]) = Inr text
                        \<and> w_value w = PStr text)
               else w_value w = PList [PDict [(''a'', PInt 1)]])"
    by blast
  from h1 c1 h3 c3 show ?thesis by blast
qed

section \<open>Loading by full path: properties\<close>

lemma py_split_not_Nil: "py_split sep s \<noteq> []"
  by (induction s) (auto split: list.splits)

lemma py_split_segment:
  "sep \<notin> set a \<Longrightarrow> py_split sep (a @ sep # b) = a # py_split sep b"
  by (induction a) (auto split: list.splits)

lemma py_join_Cons: "ys \<noteq> [] \<Longrightarrow> py_join sep (x # ys) = x @ sep @ py_join sep ys"
  by (cases ys) simp_all

lemma py_join_py_split: "py_join [sep] (py_split sep s) = s"
proof (induction s)
  case Nil
  show ?case by simp
next
  case (Cons x s)
  obtain w ws where ws: "py_split sep s = w # ws"
    using py_split_not_Nil [of sep s] by (cases "py_split sep s") auto
  show ?case
  proof (cases "x = sep")
    case True
    with Cons show ?thesis by (simp add: py_join_Cons py_split_not_Nil)
  next
    case False
    with Cons ws show ?thesis by (cases ws) auto
  qed
qed

lemma get_meta_path_of_value_key:
  assumes "CHR ''/'' \<notin> set wn" "CHR ''/'' \<notin> set sk" "CHR ''/'' \<notin> set tk"
  shows "get_meta_path_with_full_path
           (''default/'' @ wn @ ''/'' @ sk @ ''/'' @ tk @ ''/value/'' @ rest)
         = Inr (''default/'' @ wn @ ''/'' @ sk @ ''/'' @ tk @ ''/meta/'' @ rest)"
proof -
  let ?s = "CHR ''/''"
  have key: "''default/'' @ wn @ ''/'' @ sk @ ''/'' @ tk @ ''/value/'' @ rest
           = ''default'' @ ?s # (wn @ ?s # (sk @ ?s # (tk @ ?s # (''value'' @ ?s # rest))))"
    by simp
  have d: "?s \<notin> set ''default''" and v: "?s \<notin> set ''value''"
    by simp_all
  have split: "py_split ?s (''default/'' @ wn @ ''/'' @ sk @ ''/'' @ tk @ ''/value/'' @ rest)
             = ''default'' # wn # sk # tk # ''value'' # py_split ?s rest"
    unfolding key
    by (simp only: py_split_segment [OF d] py_split_segment [OF assms(1)]
          py_split_segment [OF assms(2)] py_split_segment [OF assms(3)] py_split_segment [OF v])
  have join: "py_join ''/'' (''default'' # wn # sk # tk # ''meta'' # py_split ?s rest)
            = ''default/'' @ wn @ ''/'' @ sk @ ''/'' @ tk @ ''/meta/'' @ rest"
    by (simp add: py_join_Cons py_split_not_Nil py_join_py_split)
  show ?thesis
    unfolding get_meta_path_with_full_path_def Let_def split
    using join by simp
qed

text \<open>
  C5, as the code has it. The full-path loaders do not validate the warehouse prefix.
  \<open>load_with_full_path\<close> issues one fetch for the key it is given, whatever the key, and
  returns the handler's outcome. \<open>load_meta_with_full_path\<close>, given a key
  \<open>default/{warehouse_name}/{store_kind}/{table_kind}/value/...\<close> whose warehouse name,
  store kind and table kind contain no slash, issues one fetch for the key with the
  channel segment rewritten from \<open>value\<close> to \<open>meta\<close>.
\<close>

theorem full_path_loaders_fetch:
  "load_with_full_path es fetched key = (external (es_load_file es key), fetched @ [key])
   \<and> (CHR ''/'' \<notin> set wn \<and> CHR ''/'' \<notin> set sk \<and> CHR ''/'' \<notin> set tk \<longrightarrow>
        load_meta_with_full_path es fetched
            (''default/'' @ wn @ ''/'' @ sk @ ''/'' @ tk @ ''/value/'' @ rest)
          = (external (es_load_file es
                         (''default/'' @ wn @ ''/'' @ sk @ ''/'' @ tk @ ''/meta/'' @ rest)),
             fetched @ [''default/'' @ wn @ ''/'' @ sk @ ''/'' @ tk @ ''/meta/'' @ rest]))"
proof (intro conjI impI)
  show "load_with_full_path es fetched key = (external (es_load_file es key), fetched @ [key])"
    by (simp add: load_with_full_path_def)
next
  assume "CHR ''/'' \<notin> set wn \<and> CHR ''/'' \<notin> set sk \<and> CHR ''/'' \<notin> set tk"
  then have m: "get_meta_path_with_full_path
                  (''default/'' @ wn @ ''/'' @ sk @ ''/'' @ tk @ ''/value/'' @ rest)
                = Inr (''default/'' @ wn @ ''/'' @ sk @ ''/'' @ tk @ ''/meta/'' @ rest)"
    by (intro get_meta_path_of_value_key) simp_all
  show "load_meta_with_full_path es fetched
            (''default/'' @ wn @ ''/'' @ sk @ ''/'' @ tk @ ''/value/'' @ rest)
          = (external (es_load_file es
                         (''default/'' @ wn @ ''/'' @ sk @ ''/'' @ tk @ ''/meta/'' @ rest)),
             fetched @ [''default/'' @ wn @ ''/'' @ sk @ ''/'' @ tk @ ''/meta/'' @ rest])"
    by (simp only: load_meta_with_full_path_def m sum.case)
qed

theorem full_path_loaders_fetch_witness:
  "(CHR ''/'' \<notin> set ''warehouse'' \<and> CHR ''/'' \<notin> set ''raw'' \<and> CHR ''/'' \<notin> set ''general'')
   \<and> load_with_full_path es0 [] ''elsewhere/data.json''
       = (Inr (PStr ''elsewhere/data.json''), [''elsewhere/data.json''])
   \<and> load_meta_with_full_path es0 []
        ''default/warehouse/raw/general/value/events/2020-08-30/a.json.gz''
       = (Inr (PStr ''default/warehouse/raw/general/meta/events/2020-08-30/a.json.gz''),
          [''default/warehouse/raw/general/meta/events/2020-08-30/a.json.gz''])"
  using full_path_loaders_fetch [of es0 "[]" "''elsewhere/data.json''" "''warehouse''" "''raw''"
          "''general''" "''events/2020-08-30/a.json.gz''"]
  by (simp add: es0_def external_def)

text \<open>
  C5, as claimed: a key outside \<open>default/{warehouse_name}/\<close> fails before any fetch. The
  key \<open>elsewhere/data.json\<close> does not start with \<open>default/warehouse/\<close>, and
  \<open>load_with_full_path\<close> fetches it and returns what the handler returns; the meta variant
  likewise fetches a key outside the prefix, with its fifth segment replaced.
\<close>

theorem load_with_full_path_unvalidated:
  "\<not> startswith ''elsewhere/data.json'' (''default/'' @ warehouse_name wh0 @ ''/'')
   \<and> load_with_full_path es0 [] ''elsewhere/data.json''
       = (Inr (PStr ''elsewhere/data.json''), [''elsewhere/data.json''])
   \<and> \<not> startswith ''elsewhere/raw/general/value/t/a.json.gz'' (''default/'' @ warehouse_name wh0 @ ''/'')
   \<and> load_meta_with_full_path es0 [] ''elsewhere/raw/general/value/t/a.json.gz''
       = (Inr (PStr ''elsewhere/raw/general/value/meta/a.json.gz''),
          [''elsewhere/raw/general/value/meta/a.json.gz''])"
  by code_simp

section \<open>Parsing a key: properties\<close>

lemma splitext_append: "fst (splitext p) @ snd (splitext p) = p"
  by (simp add: splitext_def Let_def)

lemma parquet_not_gz:
  assumes "snd (splitext up) = ''.parquet''"
  shows "drop (length (pre @ up) - 3) (pre @ up) \<noteq> ''.gz''"
proof -
  from assms splitext_append [of up] have "up = fst (splitext up) @ ''.parquet''" by simp
  then obtain q where "up = q @ ''.parquet''" ..
  then have "pre @ up = (pre @ q @ ''.par'') @ ''quet''" by simp
  then have "drop (length (pre @ up) - 3) (pre @ up) = ''uet''"
    by (simp del: append_assoc)
  then show ?thesis by simp
qed

lemma parse_full_path_body:
  assumes wn: "CHR ''/'' \<notin> set (warehouse_name self)"
      and sk: "CHR ''/'' \<notin> set sk" and tk: "CHR ''/'' \<notin> set tk"
      and ch: "CHR ''/'' \<notin> set ch" and tn: "CHR ''/'' \<notin> set tn"
      and ymd: "CHR ''/'' \<notin> set ymd"
      and body: "body = ''default/'' @ warehouse_name self @ ''/'' @ sk @ ''/'' @ tk @ ''/''
                          @ ch @ ''/'' @ tn @ ''/'' @ ymd @ ''/'' @ up"
  shows "valid_full_path self body = Inr ()"
    and "py_split CHR ''/'' body
           = ''default'' # warehouse_name self # sk # tk # ch # tn # ymd # py_split CHR ''/'' up"
proof -
  show "valid_full_path self body = Inr ()"
    by (simp add: valid_full_path_def startswith_def body)
  let ?s = "CHR ''/''"
  have key: "body = ''default'' @ ?s # (warehouse_name self @ ?s # (sk @ ?s # (tk @ ?s #
                      (ch @ ?s # (tn @ ?s # (ymd @ ?s # up))))))"
    by (simp add: body)
  have d: "?s \<notin> set ''default''" by simp
  show "py_split ?s body
           = ''default'' # warehouse_name self # sk # tk # ch # tn # ymd # py_split ?s up"
    unfolding key
    by (simp only: py_split_segment [OF d] py_split_segment [OF wn] py_split_segment [OF sk]
          py_split_segment [OF tk] py_split_segment [OF ch] py_split_segment [OF tn]
          py_split_segment [OF ymd])
qed

lemma parse_full_path_of_body:
  assumes "valid_full_path self body = Inr ()"
      and "py_split CHR ''/'' body
             = ''default'' # warehouse_name self # sk # tk # ch # tn # ymd # others"
      and "full_path0 = body @ ''.gz'' \<and> gz \<or> full_path0 = body \<and> \<not> gz
             \<and> drop (length body - 3) body \<noteq> ''.gz''"
  shows "parse_full_path self full_path0
           = Inr \<lparr> p_full_path = body, p_ext = snd (splitext (basename body)),
                   p_store_kind = tk, p_meta_or_value = ch, p_table_name = tn,
                   p_gz = gz, p_ymd = ymd \<rparr>"
  using assms(3)
proof
  assume a: "full_path0 = body @ ''.gz'' \<and> gz"
  then show ?thesis
    by (simp add: parse_full_path_def Let_def assms(1) assms(2) py_index_def)
next
  assume a: "full_path0 = body \<and> \<not> gz \<and> drop (length body - 3) body \<noteq> ''.gz''"
  then show ?thesis
    by (simp add: parse_full_path_def Let_def assms(1) assms(2) py_index_def)
qed

text \<open>
  C1, as the code has it. For store kind \<open>raw\<close> or \<open>discovery\<close>, either channel, a
  non-empty partition, and no slash in the warehouse name, the table kind, the resolved
  table name and the partition, \<open>_get_warehouse_full_path\<close> returns a key, and
  \<open>_parse_full_path\<close> of that key behind \<open>default/{warehouse_name}/\<close> returns the channel,
  the table name, the partition, and whether \<open>.gz\<close> was appended.
\<close>

theorem parse_full_path_round_trip:
  assumes kind: "store_kind = ''raw'' \<or> store_kind = ''discovery''"
      and wn: "CHR ''/'' \<notin> set (warehouse_name self)"
      and tk: "CHR ''/'' \<notin> set table_kind"
      and tn: "CHR ''/'' \<notin> set (get_table_name self tname)"
      and ymd: "ymd \<noteq> []" "CHR ''/'' \<notin> set ymd"
  shows "\<exists>key parsed.
           get_warehouse_full_path self store_kind tname user_path table_kind ymd is_meta = Some key
         \<and> parse_full_path self (''default/'' @ warehouse_name self @ ''/'' @ key) = Inr parsed
         \<and> p_meta_or_value parsed = (if is_meta then ''meta'' else ''value'')
         \<and> p_table_name parsed = get_table_name self tname
         \<and> p_ymd parsed = ymd
         \<and> p_gz parsed = (snd (splitext user_path) \<noteq> ''.parquet'')"
proof -
  define ch where "ch = (if is_meta then ''meta'' else ''value'')"
  define gz where "gz = (snd (splitext user_path) \<noteq> ''.parquet'')"
  define rel where "rel = store_kind @ ''/'' @ table_kind @ ''/'' @ ch @ ''/''
                            @ get_table_name self tname @ ''/'' @ ymd @ ''/'' @ user_path"
  define body where "body = ''default/'' @ warehouse_name self @ ''/'' @ rel"
  have key: "get_warehouse_full_path self store_kind tname user_path table_kind ymd is_meta
               = Some (rel @ (if gz then ''.gz'' else []))"
    using get_warehouse_full_path_Some [OF kind, of self tname user_path table_kind ymd is_meta] ymd(1)
    by (simp add: rel_def ch_def gz_def)
  have sk: "CHR ''/'' \<notin> set store_kind" using kind by auto
  have chs: "CHR ''/'' \<notin> set ch" by (simp add: ch_def)
  have b: "body = ''default/'' @ warehouse_name self @ ''/'' @ store_kind @ ''/'' @ table_kind
                    @ ''/'' @ ch @ ''/'' @ get_table_name self tname @ ''/'' @ ymd @ ''/'' @ user_path"
    by (simp add: body_def rel_def)
  note parts = parse_full_path_body [OF wn sk tk chs tn ymd(2) b]
  have full: "''default/'' @ warehouse_name self @ ''/'' @ rel @ (if gz then ''.gz'' else [])
                = body @ ''.gz'' \<and> gz
            \<or> ''default/'' @ warehouse_name self @ ''/'' @ rel @ (if gz then ''.gz'' else [])
                = body \<and> \<not> gz \<and> drop (length body - 3) body \<noteq> ''.gz''"
  proof (cases gz)
    case True
    then show ?thesis by (simp add: body_def)
  next
    case False
    then have "snd (splitext user_path) = ''.parquet''" by (simp add: gz_def)
    from parquet_not_gz [OF this, of "''default/'' @ warehouse_name self @ ''/'' @ store_kind
            @ ''/'' @ table_kind @ ''/'' @ ch @ ''/'' @ get_table_name self tname @ ''/'' @ ymd @ ''/''"]
    have "drop (length body - 3) body \<noteq> ''.gz''"
      unfolding b by simp
    with False show ?thesis by (simp add: body_def)
  qed
  from parse_full_path_of_body [OF parts full]
  have "parse_full_path self (''default/'' @ warehouse_name self @ ''/'' @ rel @ (if gz then ''.gz'' else []))
           = Inr \<lparr> p_full_path = body, p_ext = snd (splitext (basename body)),
                   p_store_kind = table_kind, p_meta_or_value = ch,
                   p_table_name = get_table_name self tname, p_gz = gz, p_ymd = ymd \<rparr>" .
  with key show ?thesis
    by (simp add: ch_def gz_def)
qed

theorem parse_full_path_round_trip_witness:
  "(''raw'' = ''raw'' \<or> ''raw'' = ''discovery'')
   \<and> CHR ''/'' \<notin> set (warehouse_name wh0)
   \<and> CHR ''/'' \<notin> set ''general''
   \<and> CHR ''/'' \<notin> set (get_table_name wh0 ''t'')
   \<and> ''2020-08-30'' \<noteq> [] \<and> CHR ''/'' \<notin> set ''2020-08-30''
   \<and> (\<exists>key parsed.
           get_warehouse_full_path wh0 ''raw'' ''t'' ''a.json'' ''general'' ''2020-08-30'' False
             = Some key
         \<and> parse_full_path wh0 (''default/'' @ warehouse_name wh0 @ ''/'' @ key) = Inr parsed
         \<and> p_meta_or_value parsed = (if False then ''meta'' else ''value'')
         \<and> p_table_name parsed = get_table_name wh0 ''t''
         \<and> p_ymd parsed = ''2020-08-30''
         \<and> p_gz parsed = (snd (splitext ''a.json'') \<noteq> ''.parquet''))"
proof -
  have kind: "''raw'' = ''raw'' \<or> ''raw'' = ''discovery''" by simp
  have wn: "CHR ''/'' \<notin> set (warehouse_name wh0)" by (simp add: wh0_def)
  have tk: "CHR ''/'' \<notin> set ''general''" by simp
  have tn: "CHR ''/'' \<notin> set (get_table_name wh0 ''t'')" by (simp add: get_table_name_def)
  have y1: "''2020-08-30'' \<noteq> []" by simp
  have y2: "CHR ''/'' \<notin> set ''2020-08-30''" by simp
  show ?thesis
    by (intro conjI)
       (rule kind, rule wn, rule tk, rule tn, rule y1, rule y2,
        rule parse_full_path_round_trip [OF kind wn tk tn y1 y2])
qed

text \<open>
  C1, as claimed: the store kind and an absent partition are recovered too. For the key
  built from store kind \<open>raw\<close>, table kind \<open>general\<close>, table \<open>t\<close>, partition
  \<open>2020-08-30\<close> and path \<open>a.json\<close>, \<open>_parse_full_path\<close> returns \<open>general\<close> as
  \<open>store_kind\<close>. For the key built from the same input without a partition, it returns
  the path segment \<open>a.json\<close> as the partition.
\<close>

theorem parse_full_path_store_kind_example:
  "get_warehouse_full_path wh0 ''raw'' ''t'' ''a.json'' ''general'' ''2020-08-30'' False
     = Some ''raw/general/value/t/2020-08-30/a.json.gz''
   \<and> parse_full_path wh0 (''default/warehouse/'' @ ''raw/general/value/t/2020-08-30/a.json.gz'')
     = Inr \<lparr> p_full_path = ''default/warehouse/raw/general/value/t/2020-08-30/a.json'',
             p_ext = ''.json'', p_store_kind = ''general'', p_meta_or_value = ''value'',
             p_table_name = ''t'', p_gz = True, p_ymd = ''2020-08-30'' \<rparr>
   \<and> get_warehouse_full_path wh0 ''raw'' ''t'' ''a.json'' ''general'' [] False
     = Some ''raw/general/value/t/a.json.gz''
   \<and> parse_full_path wh0 (''default/warehouse/'' @ ''raw/general/value/t/a.json.gz'')
     = Inr \<lparr> p_full_path = ''default/warehouse/raw/general/value/t/a.json'',
             p_ext = ''.json'', p_store_kind = ''general'', p_meta_or_value = ''value'',
             p_table_name = ''t'', p_gz = True, p_ymd = ''a.json'' \<rparr>"
  by code_simp

section \<open>Athena queries: properties\<close>

lemma poll_status_skip:
  "\<forall>m<n. reply (k + m) \<notin> {''CANCELLED'', ''FAILED'', ''SUCCEEDED''} \<Longrightarrow>
   poll_status reply query k = poll_status reply query (k + n)"
proof (induction n arbitrary: k)
  case 0
  show ?case by simp
next
  case (Suc n)
  from Suc.prems have k: "reply k \<notin> {''CANCELLED'', ''FAILED'', ''SUCCEEDED''}"
    by (metis add.right_neutral zero_less_Suc)
  have later: "\<forall>m<n. reply (Suc k + m) \<notin> {''CANCELLED'', ''FAILED'', ''SUCCEEDED''}"
  proof (intro allI impI)
    fix m assume "m < n"
    then have "Suc m < Suc n" by simp
    with Suc.prems have "reply (k + Suc m) \<notin> {''CANCELLED'', ''FAILED'', ''SUCCEEDED''}"
      by blast
    then show "reply (Suc k + m) \<notin> {''CANCELLED'', ''FAILED'', ''SUCCEEDED''}" by simp
  qed
  have "poll_status reply query k = poll_status reply query (Suc k)"
    using k by (subst poll_status.simps) simp
  also have "\<dots> = poll_status reply query (Suc k + n)"
    by (rule Suc.IH [OF later])
  finally show ?case by simp
qed

lemma poll_status_first_terminal:
  assumes "\<forall>m<n. reply m \<notin> {''CANCELLED'', ''FAILED'', ''SUCCEEDED''}"
  shows "poll_status reply query 0 =
           (if reply n = ''CANCELLED'' then Some (Inl (ValueError (''['' @ query @ ''] is cancelled.'')))
            else if reply n = ''FAILED'' then Some (Inl (ValueError (''['' @ query @ ''] is failed.'')))
            else if reply n = ''SUCCEEDED'' then Some (Inr ())
            else poll_status reply query (Suc n))"
proof -
  have "poll_status reply query 0 = poll_status reply query (0 + n)"
    by (rule poll_status_skip) (use assms in simp)
  then show ?thesis
    by (subst (asm) (2) poll_status.simps) simp
qed

text \<open>
  C8. When the first state other than a running one that the service reports for the
  submitted query is \<open>FAILED\<close> or \<open>CANCELLED\<close>, \<open>load_with_athena_query\<close> returns,
  and it returns a \<open>ValueError\<close> whose message carries the query text; it returns no
  result, for every format type and request limit.
\<close>

theorem load_with_athena_query_terminal_error:
  assumes "query_id = start_query_execution client query
                        (''s3://'' @ bucket_name self @ ''/trash/athena_result'')"
      and "\<forall>m<n. get_query_execution client query_id m \<notin> {''CANCELLED'', ''FAILED'', ''SUCCEEDED''}"
      and "get_query_execution client query_id n = ''FAILED''
           \<or> get_query_execution client query_id n = ''CANCELLED''"
  shows "load_with_athena_query client self query format_type request_limit
           = Some (Inl (ValueError
               (''['' @ query @ (if get_query_execution client query_id n = ''FAILED''
                                 then ''] is failed.'' else ''] is cancelled.''))))"
proof -
  have "poll_status (get_query_execution client query_id) query 0
          = Some (Inl (ValueError
               (''['' @ query @ (if get_query_execution client query_id n = ''FAILED''
                                 then ''] is failed.'' else ''] is cancelled.''))))"
    using assms(3) by (subst poll_status_first_terminal [OF assms(2)]) auto
  then show ?thesis
    unfolding load_with_athena_query_def Let_def assms(1) [symmetric] by simp
qed

theorem load_with_athena_query_terminal_error_witness:
  "get_query_execution athena_failed ''query-2'' 0 = ''QUEUED''
   \<and> get_query_execution athena_failed ''query-2'' 1 = ''FAILED''
   \<and> load_with_athena_query athena_failed wh0 ''SELECT id FROM t'' ''auto'' 10000
       = Some (Inl (ValueError ''[SELECT id FROM t] is failed.''))"
  using load_with_athena_query_terminal_error
          [of "''query-2''" athena_failed "''SELECT id FROM t''" wh0 1 "''auto''" 10000]
  by (simp add: athena_failed_def)

lemma results_loop_select_continue:
  assumes "get_query_results client query_id (if next_tokens = [] then None else Some (last next_tokens))
             = \<lparr> Rows = rows, NextToken = Some token \<rparr>"
      and "index \<noteq> 0" and "parse h rows = Inr parsed"
      and "token \<notin> set next_tokens"
  shows "results_loop client query_id ''select'' (Suc remaining) index next_tokens (Some h) result
           = results_loop client query_id ''select'' remaining (index + 1)
               (next_tokens @ [token]) (Some h) (result @ map Record parsed)"
  using assms by (cases "next_tokens = []") (simp_all add: Let_def)

lemma results_loop_select_first:
  assumes "get_query_results client query_id None = \<lparr> Rows = h # rows, NextToken = Some token \<rparr>"
      and "parse h rows = Inr parsed"
  shows "results_loop client query_id ''select'' (Suc remaining) 0 [] header []
           = results_loop client query_id ''select'' remaining 1 [token] (Some h)
               (map Record parsed)"
  using assms by (simp add: Let_def)

lemma results_loop_select_repeated:
  assumes "get_query_results client query_id (if next_tokens = [] then None else Some (last next_tokens))
             = \<lparr> Rows = rows, NextToken = Some token \<rparr>"
      and "index \<noteq> 0" and "parse h rows = Inr parsed"
      and "token \<in> set next_tokens"
  shows "results_loop client query_id ''select'' (Suc remaining) index next_tokens (Some h) result
           = Inr (result @ map Record parsed)"
  using assms by (cases "next_tokens = []") (simp_all add: Let_def)

lemma get_format_type_example: "get_format_type ''SELECT id FROM t'' = ''select''"
  by code_simp

text \<open>
  C4, as the code has it. In row-parsing mode, when the query succeeds, the three pages
  carry the continuation tokens \<open>t1\<close>, \<open>t2\<close> and \<open>t1\<close> again, their rows parse and
  the request limit is at least three, \<open>load_with_athena_query\<close> returns, and it returns
  the parsed rows of exactly the first three pages: the rows of the third page are added
  before its token is found among the tokens seen.
\<close>

theorem load_with_athena_query_repeated_token:
  assumes qid: "query_id = start_query_execution client query
                        (''s3://'' @ bucket_name self @ ''/trash/athena_result'')"
      and running: "\<forall>m<n. get_query_execution client query_id m
                              \<notin> {''CANCELLED'', ''FAILED'', ''SUCCEEDED''}"
      and succeeded: "get_query_execution client query_id n = ''SUCCEEDED''"
      and mode: "(if format_type = ''auto'' then get_format_type query else format_type) = ''select''"
      and page1: "get_query_results client query_id None
                    = \<lparr> Rows = header # first_rows, NextToken = Some ''t1'' \<rparr>"
      and page2: "get_query_results client query_id (Some ''t1'')
                    = \<lparr> Rows = second_rows, NextToken = Some ''t2'' \<rparr>"
      and page3: "get_query_results client query_id (Some ''t2'')
                    = \<lparr> Rows = third_rows, NextToken = Some ''t1'' \<rparr>"
      and parsed: "parse header first_rows = Inr first_parsed" "parse header second_rows = Inr second_parsed"
                  "parse header third_rows = Inr third_parsed"
      and limit: "3 \<le> request_limit"
  shows "load_with_athena_query client self query format_type request_limit
           = Some (Inr (map Record (first_parsed @ second_parsed @ third_parsed)))"
proof -
  have poll: "poll_status (get_query_execution client query_id) query 0 = Some (Inr ())"
    using succeeded by (subst poll_status_first_terminal [OF running]) simp
  from limit have "3 \<le> nat request_limit" by simp
  then have "\<exists>j. nat request_limit = 3 + j" by (rule le_Suc_ex)
  then obtain k where k: "nat request_limit = Suc (Suc (Suc k))"
    by (auto simp: numeral_3_eq_3)
  have "results_loop client query_id ''select'' (Suc (Suc (Suc k))) 0 [] None []
          = results_loop client query_id ''select'' (Suc (Suc k)) 1 [''t1''] (Some header)
              (map Record first_parsed)"
    by (rule results_loop_select_first [OF page1 parsed(1)])
  also have "\<dots> = results_loop client query_id ''select'' (Suc k) (1 + 1) ([''t1''] @ [''t2''])
                     (Some header) (map Record first_parsed @ map Record second_parsed)"
    by (rule results_loop_select_continue [where rows = second_rows]) (simp_all add: page2 parsed(2))
  also have "\<dots> = Inr ((map Record first_parsed @ map Record second_parsed) @ map Record third_parsed)"
    by (rule results_loop_select_repeated [where rows = third_rows and token = "''t1''"])
       (simp_all add: page3 parsed(3))
  finally have loop: "results_loop client query_id ''select'' (Suc (Suc (Suc k))) 0 [] None []
                = Inr (map Record (first_parsed @ second_parsed @ third_parsed))"
    by simp
  show ?thesis
    unfolding load_with_athena_query_def Let_def qid [symmetric] mode
    by (simp add: poll k loop del: results_loop.simps)
qed

theorem load_with_athena_query_repeated_token_witness:
  "get_query_execution athena0 ''query-1'' 0 = ''RUNNING''
   \<and> get_query_execution athena0 ''query-1'' 1 = ''RUNNING''
   \<and> get_query_execution athena0 ''query-1'' 2 = ''SUCCEEDED''
   \<and> (3::int) \<le> 10000
   \<and> load_with_athena_query athena0 wh0 ''SELECT id FROM t'' ''auto'' 10000
       = Some (Inr (map Record ([[(''id'', ''1'')]] @ [[(''id'', ''2'')]] @ [[(''id'', ''3'')]])))"
proof -
  have r: "\<forall>m<2. get_query_execution athena0 ''query-1'' m \<notin> {''CANCELLED'', ''FAILED'', ''SUCCEEDED''}"
    by (simp add: athena0_def)
  have s: "get_query_execution athena0 ''query-1'' 2 = ''SUCCEEDED''"
    by (simp add: athena0_def)
  have l: "(3::int) \<le> 10000" by simp
  have "load_with_athena_query athena0 wh0 ''SELECT id FROM t'' ''auto'' 10000
       = Some (Inr (map Record ([[(''id'', ''1'')]] @ [[(''id'', ''2'')]] @ [[(''id'', ''3'')]])))"
  proof (rule load_with_athena_query_repeated_token [where query_id = "''query-1''" and n = 2
             and header = "[Some ''id'']" and first_rows = "[[Some ''1'']]" and second_rows = "[[Some ''2'']]"
             and third_rows = "[[Some ''3'']]"])
    show "''query-1'' = start_query_execution athena0 ''SELECT id FROM t''
                          (''s3://'' @ bucket_name wh0 @ ''/trash/athena_result'')"
      by (simp add: athena0_def)
    show "(if ''auto'' = ''auto'' then get_format_type ''SELECT id FROM t'' else ''auto'') = ''select''"
      by (simp add: get_format_type_example)
    show "get_query_results athena0 ''query-1'' None
            = \<lparr> Rows = [Some ''id''] # [[Some ''1'']], NextToken = Some ''t1'' \<rparr>"
      by (simp add: athena0_def)
    show "get_query_results athena0 ''query-1'' (Some ''t1'')
            = \<lparr> Rows = [[Some ''2'']], NextToken = Some ''t2'' \<rparr>"
      by (simp add: athena0_def)
    show "get_query_results athena0 ''query-1'' (Some ''t2'')
            = \<lparr> Rows = [[Some ''3'']], NextToken = Some ''t1'' \<rparr>"
      by (simp add: athena0_def)
    show "parse [Some ''id''] [[Some ''1'']] = Inr [[(''id'', ''1'')]]"
      by (simp add: parse_def py_dict_def)
    show "parse [Some ''id''] [[Some ''2'']] = Inr [[(''id'', ''2'')]]"
      by (simp add: parse_def py_dict_def)
    show "parse [Some ''id''] [[Some ''3'']] = Inr [[(''id'', ''3'')]]"
      by (simp add: parse_def py_dict_def)
  qed (rule r, rule s, rule l)
  moreover have "get_query_execution athena0 ''query-1'' 0 = ''RUNNING''"
    and "get_query_execution athena0 ''query-1'' 1 = ''RUNNING''"
    by (simp_all add: athena0_def)
  ultimately show ?thesis using s l by blast
qed

text \<open>
  C4, as claimed: the rows of exactly the first two pages are returned. On the mock
  service with tokens \<open>t1\<close>, \<open>t2\<close>, \<open>t1\<close> the call returns, and its result has the
  row of the third page as well.
\<close>

theorem load_with_athena_query_three_pages:
  "load_with_athena_query athena0 wh0 ''SELECT id FROM t'' ''auto'' 10000
     = Some (Inr [Record [(''id'', ''1'')], Record [(''id'', ''2'')], Record [(''id'', ''3'')]])
   \<and> load_with_athena_query athena0 wh0 ''SELECT id FROM t'' ''auto'' 10000
     \<noteq> Some (Inr [Record [(''id'', ''1'')], Record [(''id'', ''2'')]])"
  by code_simp

end
